theory Spec2Isabelle
  imports Complex_Main
begin

section \<open>Exceptions\<close>

text \<open>
  The exceptions that \<^verbatim>\<open>main.py\<close> raises, catches or lets through. A raise is the
  value \<open>Inl e\<close> of a result \<open>py_exc + 'a\<close>; a normal return is \<open>Inr v\<close>.
  \<^verbatim>\<open>EnvironmentError\<close> is Python 3's alias of \<^verbatim>\<open>OSError\<close>, and the built-in
  \<^verbatim>\<open>TimeoutError\<close> is a subclass of it. Selenium's \<^verbatim>\<open>TimeoutException\<close>,
  \<^verbatim>\<open>NoSuchElementException\<close> and \<^verbatim>\<open>StaleElementReferenceException\<close> are
  subclasses of \<^verbatim>\<open>WebDriverException\<close>. \<^verbatim>\<open>SystemExit\<close> derives from
  \<^verbatim>\<open>BaseException\<close> only, so \<^verbatim>\<open>except Exception\<close> does not catch it.
  \<open>PlainException\<close> is an instance of \<^verbatim>\<open>Exception\<close> itself, as in
  \<^verbatim>\<open>raise Exception("...")\<close>; \<open>RetryError\<close> is tenacity's.
\<close>

datatype py_exc =
    SystemExit nat
  | PlainException
  | OSError
  | TimeoutError
  | ValueError
  | TypeError
  | OverflowError
  | IndexError
  | WebDriverException
  | TimeoutException
  | NoSuchElementException
  | StaleElementReferenceException
  | RetryError

fun is_Exception :: "py_exc \<Rightarrow> bool" where
  "is_Exception (SystemExit c) = False"
| "is_Exception e = True"

fun is_EnvironmentError :: "py_exc \<Rightarrow> bool" where
  "is_EnvironmentError OSError = True"
| "is_EnvironmentError TimeoutError = True"
| "is_EnvironmentError e = False"

fun is_WebDriverException :: "py_exc \<Rightarrow> bool" where
  "is_WebDriverException WebDriverException = True"
| "is_WebDriverException TimeoutException = True"
| "is_WebDriverException NoSuchElementException = True"
| "is_WebDriverException StaleElementReferenceException = True"
| "is_WebDriverException e = False"

fun is_TimeoutException :: "py_exc \<Rightarrow> bool" where
  "is_TimeoutException TimeoutException = True"
| "is_TimeoutException e = False"

section \<open>Retry policies (the \<^verbatim>\<open>@retry\<close> decorators)\<close>

text \<open>
  \<^verbatim>\<open>login_neotel\<close>, \<^verbatim>\<open>navegar_a_reportes\<close> and \<^verbatim>\<open>descargar_reporte\<close> are wrapped
  by tenacity's \<^verbatim>\<open>@retry(stop=stop_after_attempt(n), wait=wait_exponential(multiplier=..,
  min=.., max=..), retry=retry_if_exception_type(..))\<close>. The three policy objects are
  tenacity's (version 8):
  \<^item> \<^verbatim>\<open>stop_after_attempt.__call__\<close>: \<^verbatim>\<open>attempt_number >= max_attempt_number\<close>;
  \<^item> \<^verbatim>\<open>wait_exponential.__call__\<close>: \<^verbatim>\<open>exp = exp_base ** (attempt_number - 1);
    result = multiplier * exp; return max(max(0, min), min(result, max))\<close>, with
    \<^verbatim>\<open>exp_base\<close> defaulting to 2;
  \<^item> \<^verbatim>\<open>Retrying.__call__\<close>: run the function; when it returns, or raises an exception
    the retry predicate rejects, that is the outcome; otherwise, when the stop predicate
    holds, raise \<^verbatim>\<open>RetryError\<close>; otherwise sleep \<^verbatim>\<open>wait(retry_state)\<close>, add one to
    \<^verbatim>\<open>attempt_number\<close> (which starts at 1) and run the function again.
  Durations are in seconds. The behaviour of the wrapped function is given by its outcome
  at each attempt number; the sleeps performed are returned with the outcome.
\<close>

definition stop_after_attempt :: "nat \<Rightarrow> nat \<Rightarrow> bool" where
  "stop_after_attempt max_attempt_number attempt_number \<longleftrightarrow>
     attempt_number \<ge> max_attempt_number"

definition wait_exponential :: "int \<Rightarrow> int \<Rightarrow> int \<Rightarrow> int \<Rightarrow> nat \<Rightarrow> int" where
  "wait_exponential multiplier min_wait max_wait exp_base attempt_number =
     max (max 0 min_wait) (min (multiplier * exp_base ^ (attempt_number - 1)) max_wait)"

function retrying ::
  "nat \<Rightarrow> (nat \<Rightarrow> int) \<Rightarrow> (py_exc \<Rightarrow> bool) \<Rightarrow> (nat \<Rightarrow> py_exc + 'a) \<Rightarrow> nat
     \<Rightarrow> int list \<times> (py_exc + 'a)" where
  "retrying max_attempt_number wait retry fn attempt_number =
     (case fn attempt_number of
        Inr v \<Rightarrow> ([], Inr v)
      | Inl e \<Rightarrow>
          if \<not> retry e then ([], Inl e)
          else if stop_after_attempt max_attempt_number attempt_number then ([], Inl RetryError)
          else (case retrying max_attempt_number wait retry fn (Suc attempt_number) of
                  (sleeps, r) \<Rightarrow> (wait attempt_number # sleeps, r)))"
  by pat_completeness auto
termination
  by (relation "measure (\<lambda>(m, w, p, f, n). m - n)") (auto simp: stop_after_attempt_def)

text \<open>
  \<^verbatim>\<open>login_neotel\<close>: \<^verbatim>\<open>stop_after_attempt(3)\<close>,
  \<^verbatim>\<open>wait_exponential(multiplier=2, min=4, max=40)\<close>,
  \<^verbatim>\<open>retry_if_exception_type((WebDriverException, TimeoutException))\<close>.
\<close>

definition login_neotel_wait :: "nat \<Rightarrow> int" where
  "login_neotel_wait = wait_exponential 2 4 40 2"

definition login_neotel_retry :: "(nat \<Rightarrow> py_exc + 'a) \<Rightarrow> int list \<times> (py_exc + 'a)" where
  "login_neotel_retry fn =
     retrying 3 login_neotel_wait
       (\<lambda>e. is_WebDriverException e \<or> is_TimeoutException e) fn 1"

text \<open>Five consecutive transient failures of the login body, then success.\<close>

definition five_transient_failures :: "nat \<Rightarrow> py_exc + unit" where
  "five_transient_failures n = (if n \<le> 5 then Inl TimeoutException else Inr ())"

section \<open>Download watcher\<close>

text \<open>
  The download directory at one instant: its entries, each with its name, whether it is a
  regular file (\<^verbatim>\<open>Path.is_file\<close>) and its size in bytes (\<^verbatim>\<open>stat().st_size\<close>), or
  \<open>NoExiste\<close> when the directory does not exist. A Python set of file names is a list
  here, in the order in which the set iterates; every order is covered, since the
  listings are arbitrary. The baseline \<^verbatim>\<open>archivos_previos\<close> is only tested for
  membership and is a set.
\<close>

record entrada =
  nombre :: string
  es_archivo :: bool
  st_size :: nat

datatype directorio = NoExiste | Directorio "entrada list"

fun obtener_archivos_en_directorio :: "directorio \<Rightarrow> string list" where
  "obtener_archivos_en_directorio NoExiste = []"
| "obtener_archivos_en_directorio (Directorio es) = map nombre (filter es_archivo es)"

fun stat_st_size :: "directorio \<Rightarrow> string \<Rightarrow> nat option" where
  "stat_st_size NoExiste f = None"
| "stat_st_size (Directorio es) f = map_option st_size (find (\<lambda>e. nombre e = f) es)"

text \<open>\<^verbatim>\<open>str.endswith\<close>.\<close>

definition endswith :: "string \<Rightarrow> string \<Rightarrow> bool" where
  "endswith s suffix \<longleftrightarrow>
     length suffix \<le> length s \<and> drop (length s - length suffix) s = suffix"

definition archivos_nuevos :: "string list \<Rightarrow> string set \<Rightarrow> string list" where
  "archivos_nuevos archivos_actuales archivos_previos =
     filter (\<lambda>f. f \<notin> archivos_previos) archivos_actuales"

definition archivos_completos :: "string list \<Rightarrow> string list" where
  "archivos_completos nuevos =
     filter (\<lambda>f. \<not> endswith f ''.crdownload'' \<and> \<not> endswith f ''.part''
                 \<and> \<not> endswith f ''.tmp'') nuevos"

definition DOWNLOAD_TIMEOUT :: rat where "DOWNLOAD_TIMEOUT = 20"
definition DOWNLOAD_CHECK_INTERVAL_MIN :: rat where "DOWNLOAD_CHECK_INTERVAL_MIN = 1"
definition DOWNLOAD_CHECK_INTERVAL_MAX :: rat where "DOWNLOAD_CHECK_INTERVAL_MAX = 6"

text \<open>
  One pass of the body of the \<^verbatim>\<open>while\<close> loop of \<^verbatim>\<open>esperar_descarga_completa\<close>, up to
  the \<^verbatim>\<open>return\<close>: \<open>Some (Inr f)\<close> when the pass returns \<open>f\<close>, \<open>None\<close> when it falls
  through to \<^verbatim>\<open>time.sleep\<close>, \<open>Some (Inl e)\<close> when \<^verbatim>\<open>stat()\<close> raises because the
  listing has no entry of that name.
\<close>

definition comprobar_descarga :: "directorio \<Rightarrow> string set \<Rightarrow> (py_exc + string) option" where
  "comprobar_descarga download_dir archivos_previos =
     (case archivos_completos
             (archivos_nuevos (obtener_archivos_en_directorio download_dir) archivos_previos) of
        [] \<Rightarrow> None
      | archivo_descargado # resto \<Rightarrow>
          (case stat_st_size download_dir archivo_descargado of
             None \<Rightarrow> Some (Inl OSError)
           | Some n \<Rightarrow> if n > 0 then Some (Inr archivo_descargado) else None))"

text \<open>
  The \<^verbatim>\<open>while time.time() - tiempo_inicio < timeout\<close> loop. \<open>transcurrido\<close> is
  \<^verbatim>\<open>time.time() - tiempo_inicio\<close>: the clock advances by the duration of each
  \<^verbatim>\<open>time.sleep(intervalo)\<close>, and a pass over the directory takes no time.
  \<open>download_dir tick\<close> is the directory as the pass number \<open>tick\<close> (from 0) finds it, and
  \<open>dormido\<close> collects the sleeps performed. The intervals 1, 1.5, 2.25, 3.375, 5.0625
  and 6 are exact as Python floats, so the rational numbers here are the values of the
  program. The loop does not end for every \<open>intervalo\<close> (with 0 it never does), hence the
  option: \<open>None\<close> is a loop that does not end.
\<close>

partial_function (option) esperar_bucle ::
  "(nat \<Rightarrow> directorio) \<Rightarrow> string set \<Rightarrow> rat \<Rightarrow> rat \<Rightarrow> rat \<Rightarrow> nat \<Rightarrow> rat list
     \<Rightarrow> (rat list \<times> (py_exc + string)) option" where
  "esperar_bucle download_dir archivos_previos timeout transcurrido intervalo tick dormido =
     (if transcurrido < timeout then
        (case comprobar_descarga (download_dir tick) archivos_previos of
           Some r \<Rightarrow> Some (dormido, r)
         | None \<Rightarrow>
             esperar_bucle download_dir archivos_previos timeout (transcurrido + intervalo)
               (min (intervalo * (3 / 2)) DOWNLOAD_CHECK_INTERVAL_MAX) (Suc tick)
               (dormido @ [intervalo]))
      else Some (dormido, Inl TimeoutError))"

declare esperar_bucle.simps [code]

definition esperar_descarga_completa ::
  "(nat \<Rightarrow> directorio) \<Rightarrow> string set \<Rightarrow> rat \<Rightarrow> (rat list \<times> (py_exc + string)) option" where
  "esperar_descarga_completa download_dir archivos_previos timeout =
     esperar_bucle download_dir archivos_previos timeout 0 DOWNLOAD_CHECK_INTERVAL_MIN 0 []"



text \<open>
  Step 4 of \<^verbatim>\<open>descargar_reporte\<close>: the watcher with the default timeout and, when it
  raises \<^verbatim>\<open>TimeoutError\<close>, one more listing of the directory
  (\<open>dir_tras_timeout\<close>), whose first new name \<^verbatim>\<open>list(nuevos)[0]\<close> is taken as the
  download; with no new name the \<^verbatim>\<open>TimeoutError\<close> is raised again.
\<close>

definition descargar_paso4 ::
  "(nat \<Rightarrow> directorio) \<Rightarrow> directorio \<Rightarrow> string set \<Rightarrow> (py_exc + string) option" where
  "descargar_paso4 download_dir dir_tras_timeout archivos_previos =
     (case esperar_descarga_completa download_dir archivos_previos DOWNLOAD_TIMEOUT of
        None \<Rightarrow> None
      | Some (dormido, Inr archivo_descargado) \<Rightarrow> Some (Inr archivo_descargado)
      | Some (dormido, Inl e) \<Rightarrow>
          if e = TimeoutError then
            (case archivos_nuevos (obtener_archivos_en_directorio dir_tras_timeout)
                    archivos_previos of
               [] \<Rightarrow> Some (Inl e)
             | archivo_descargado # resto \<Rightarrow> Some (Inr archivo_descargado))
          else Some (Inl e))"

text \<open>The recognised partial-download suffixes.\<close>

definition es_parcial :: "string \<Rightarrow> bool" where
  "es_parcial f \<longleftrightarrow> endswith f ''.crdownload'' \<or> endswith f ''.part'' \<or> endswith f ''.tmp''"

text \<open>The sleeps of \<open>n\<close> unsuccessful passes that start with the interval \<open>iv\<close>.\<close>

fun intervalos :: "rat \<Rightarrow> nat \<Rightarrow> rat list" where
  "intervalos iv 0 = []"
| "intervalos iv (Suc n) = iv # intervalos (min (iv * (3 / 2)) DOWNLOAD_CHECK_INTERVAL_MAX) n"

text \<open>
  The directories of the download-detection example: the baseline file and a download in
  progress, then the baseline file and the finished download.
\<close>

definition dir_en_curso :: directorio where
  "dir_en_curso = Directorio
     [\<lparr>nombre = ''a.txt'', es_archivo = True, st_size = 3\<rparr>,
      \<lparr>nombre = ''report23.csv.crdownload'', es_archivo = True, st_size = 4096\<rparr>]"

definition dir_terminada :: directorio where
  "dir_terminada = Directorio
     [\<lparr>nombre = ''a.txt'', es_archivo = True, st_size = 3\<rparr>,
      \<lparr>nombre = ''report23.csv'', es_archivo = True, st_size = 4096\<rparr>]"

definition traza_ejemplo :: "nat \<Rightarrow> directorio" where
  "traza_ejemplo tick = (if tick < 3 then dir_en_curso else dir_terminada)"

section \<open>Configuration and process exit codes\<close>

text \<open>
  \<^verbatim>\<open>os.environ\<close> after \<^verbatim>\<open>load_dotenv\<close>, as a map from names to values.
  \<^verbatim>\<open>obtener_variable_entorno\<close> raises \<^verbatim>\<open>EnvironmentError\<close> (that is \<open>OSError\<close>) when
  a required variable is unset or empty (\<^verbatim>\<open>not valor\<close>).
\<close>

type_synonym entorno = "string \<rightharpoonup> string"

definition obtener_variable_entorno :: "entorno \<Rightarrow> string \<Rightarrow> bool \<Rightarrow> py_exc + string" where
  "obtener_variable_entorno env nombre_variable obligatoria =
     (let valor = env nombre_variable in
      if obligatoria \<and> (valor = None \<or> valor = Some []) then Inl OSError
      else Inr (case valor of None \<Rightarrow> [] | Some v \<Rightarrow> v))"

definition bind_exc :: "py_exc + 'a \<Rightarrow> ('a \<Rightarrow> py_exc + 'b) \<Rightarrow> py_exc + 'b" where
  "bind_exc r f = (case r of Inl e \<Rightarrow> Inl e | Inr v \<Rightarrow> f v)"

text \<open>
  The module-level assignments of lines 81 to 87, run when the script is loaded, before
  \<^verbatim>\<open>main()\<close> is called and outside its \<^verbatim>\<open>try\<close>.
\<close>

record configuracion =
  NEOTEL_USER :: string
  NEOTEL_PASS :: string
  SQL_SERVER :: string
  SQL_DATABASE :: string
  SQL_USER :: string
  SQL_PASSWORD :: string

definition cargar_configuracion :: "entorno \<Rightarrow> py_exc + configuracion" where
  "cargar_configuracion env =
     bind_exc (obtener_variable_entorno env ''NEOTEL_USER'' True) (\<lambda>nu.
     bind_exc (obtener_variable_entorno env ''NEOTEL_PASS'' True) (\<lambda>np.
     bind_exc (obtener_variable_entorno env ''SQL_SERVER'' True) (\<lambda>ss.
     bind_exc (obtener_variable_entorno env ''SQL_DATABASE'' True) (\<lambda>sd.
     bind_exc (obtener_variable_entorno env ''SQL_USER'' True) (\<lambda>su.
     bind_exc (obtener_variable_entorno env ''SQL_PASSWORD'' True) (\<lambda>sp.
       Inr \<lparr>NEOTEL_USER = nu, NEOTEL_PASS = np, SQL_SERVER = ss, SQL_DATABASE = sd,
            SQL_USER = su, SQL_PASSWORD = sp\<rparr>))))))"

text \<open>
  \<^verbatim>\<open>main()\<close>. The three phases are given by their outcomes: the extraction raises or
  returns the list of downloaded paths, the transformation raises or returns, for each
  report type, the numbers of rows and of columns of its DataFrame (\<open>None\<close> for no
  DataFrame), the load raises or returns; \<^verbatim>\<open>DataFrame.empty\<close> holds when one of the two
  numbers is zero. The phases started are returned with the outcome; the browser is
  started by the extraction phase only.
\<close>

datatype fase = Extraccion | Transformacion | Carga

record fases =
  ejecutar_extraccion_r :: "py_exc + string list"
  ejecutar_transformacion_r :: "py_exc + (string \<times> (nat \<times> nat) option) list"
  ejecutar_carga_r :: "py_exc + unit"

definition hay_datos :: "(string \<times> (nat \<times> nat) option) list \<Rightarrow> bool" where
  "hay_datos datos_transformados =
     list_ex (\<lambda>(k, v). case v of
                          None \<Rightarrow> False
                        | Some (filas, columnas) \<Rightarrow> filas \<noteq> 0 \<and> columnas \<noteq> 0)
       datos_transformados"

definition main_try :: "fases \<Rightarrow> fase list \<times> (py_exc + unit)" where
  "main_try w =
     (case ejecutar_extraccion_r w of
        Inl e \<Rightarrow> ([Extraccion], Inl e)
      | Inr archivos_descargados \<Rightarrow>
          if archivos_descargados = [] then ([Extraccion], Inl (SystemExit 1))
          else
            (case ejecutar_transformacion_r w of
               Inl e \<Rightarrow> ([Extraccion, Transformacion], Inl e)
             | Inr datos_transformados \<Rightarrow>
                 if \<not> hay_datos datos_transformados
                 then ([Extraccion, Transformacion], Inl (SystemExit 1))
                 else
                   (case ejecutar_carga_r w of
                      Inl e \<Rightarrow> ([Extraccion, Transformacion, Carga], Inl e)
                    | Inr u \<Rightarrow> ([Extraccion, Transformacion, Carga], Inr ()))))"

definition main :: "fases \<Rightarrow> fase list \<times> (py_exc + unit)" where
  "main w =
     (case main_try w of
        (iniciadas, Inr u) \<Rightarrow> (iniciadas, Inr u)
      | (iniciadas, Inl e) \<Rightarrow>
          if is_EnvironmentError e then (iniciadas, Inl (SystemExit 2))
          else if is_Exception e then (iniciadas, Inl (SystemExit 1))
          else (iniciadas, Inl e))"

text \<open>
  The exit status of the interpreter: 0 when the script ends normally, the argument of
  \<^verbatim>\<open>sys.exit\<close> for \<^verbatim>\<open>SystemExit\<close>, 1 for any other exception that nothing catches.
\<close>

fun exit_status :: "py_exc + unit \<Rightarrow> nat" where
  "exit_status (Inr u) = 0"
| "exit_status (Inl (SystemExit c)) = c"
| "exit_status (Inl e) = 1"

definition script :: "entorno \<Rightarrow> fases \<Rightarrow> fase list \<times> nat" where
  "script env w =
     (case cargar_configuracion env of
        Inl e \<Rightarrow> ([], exit_status (Inl e))
      | Inr cfg \<Rightarrow> (case main w of (iniciadas, r) \<Rightarrow> (iniciadas, exit_status r)))"

text \<open>An environment with every required variable but \<^verbatim>\<open>NEOTEL_PASS\<close>.\<close>

definition entorno_sin_clave :: entorno where
  "entorno_sin_clave =
     map_of [(''NEOTEL_USER'', ''operador''), (''SQL_SERVER'', ''srv''),
             (''SQL_DATABASE'', ''bd''), (''SQL_USER'', ''etl''), (''SQL_PASSWORD'', ''x'')]"

text \<open>The exit code that the handlers of \<^verbatim>\<open>main()\<close> give to an exception raised in
  its \<^verbatim>\<open>try\<close>.\<close>

definition codigo_de_main :: "py_exc \<Rightarrow> nat" where
  "codigo_de_main e =
     (if is_EnvironmentError e then 2 else if is_Exception e then 1 else exit_status (Inl e))"

section \<open>Business date\<close>

text \<open>
  \<^verbatim>\<open>calcular_fecha_ayer\<close> computes \<^verbatim>\<open>datetime.now() - timedelta(days=1)\<close> and formats
  it with \<^verbatim>\<open>strftime("%d/%m/%Y")\<close>. The current local time \<^verbatim>\<open>datetime.now()\<close> is the
  argument \<open>ahora\<close>. The subtraction is CPython's \<^verbatim>\<open>add_datetime_timedelta\<close>: the
  day becomes \<^verbatim>\<open>day - 1\<close>, the time of day is unchanged, and \<^verbatim>\<open>normalize_y_m_d\<close>
  brings a day 0 back to the last day of the previous month, or to the 31st of December
  of the previous year; a year below \<^verbatim>\<open>MINYEAR\<close> = 1 or above \<^verbatim>\<open>MAXYEAR\<close> = 9999
  raises \<^verbatim>\<open>OverflowError\<close>.
\<close>

record datetime =
  year :: int
  month :: int
  day :: int
  hour :: int
  minute :: int
  second :: int
  microsecond :: int

definition is_leap :: "int \<Rightarrow> bool" where
  "is_leap y \<longleftrightarrow> y mod 4 = 0 \<and> (y mod 100 \<noteq> 0 \<or> y mod 400 = 0)"

definition days_in_month_tabla :: "int list" where
  "days_in_month_tabla = [0, 31, 28, 31, 30, 31, 30, 31, 31, 30, 31, 30, 31]"

definition days_in_month :: "int \<Rightarrow> int \<Rightarrow> int" where
  "days_in_month y m = (if m = 2 \<and> is_leap y then 29 else days_in_month_tabla ! nat m)"

definition MINYEAR :: int where "MINYEAR = 1"
definition MAXYEAR :: int where "MAXYEAR = 9999"

definition normalize_y_m_d :: "int \<Rightarrow> int \<Rightarrow> int \<Rightarrow> py_exc + int \<times> int \<times> int" where
  "normalize_y_m_d y m d =
     (let (y', m', d') =
        (if d = 0 then
           (if 0 < m - 1 then (y, m - 1, days_in_month y (m - 1)) else (y - 1, 12, 31))
         else (y, m, d))
      in if MINYEAR \<le> y' \<and> y' \<le> MAXYEAR then Inr (y', m', d') else Inl OverflowError)"

definition restar_un_dia :: "datetime \<Rightarrow> py_exc + datetime" where
  "restar_un_dia ahora =
     (case normalize_y_m_d (year ahora) (month ahora) (day ahora - 1) of
        Inl e \<Rightarrow> Inl e
      | Inr (y, m, d) \<Rightarrow> Inr (ahora\<lparr>year := y, month := m, day := d\<rparr>))"

text \<open>
  \<^verbatim>\<open>strftime("%d/%m/%Y")\<close>: day and month as two decimal digits, the year as four. (For
  a year below 1000 the C library decides whether \<^verbatim>\<open>%Y\<close> is padded; the statements
  below are about years from 1000 on.)
\<close>

definition digito :: "int \<Rightarrow> char" where
  "digito n = char_of (48 + n)"

definition dos_digitos :: "int \<Rightarrow> string" where
  "dos_digitos n = [digito (n div 10 mod 10), digito (n mod 10)]"

definition cuatro_digitos :: "int \<Rightarrow> string" where
  "cuatro_digitos n = dos_digitos (n div 100) @ dos_digitos (n mod 100)"

definition strftime_d_m_Y :: "datetime \<Rightarrow> string" where
  "strftime_d_m_Y t = dos_digitos (day t) @ ''/'' @ dos_digitos (month t) @ ''/''
                        @ cuatro_digitos (year t)"

definition calcular_fecha_ayer :: "datetime \<Rightarrow> py_exc + string" where
  "calcular_fecha_ayer ahora =
     (case restar_un_dia ahora of
        Inl e \<Rightarrow> Inl e
      | Inr ayer \<Rightarrow> Inr (strftime_d_m_Y ayer))"

text \<open>
  What the claim speaks of. A date of the calendar; its day number, counted from
  1 for the 1st of January of year 1 (\<^verbatim>\<open>date.toordinal\<close>), so that "minus one calendar
  day" is the date whose day number is one less; and the number that a string of decimal
  digits denotes (\<open>None\<close> for the empty string and for a string with any other
  character).
\<close>

definition fecha_valida :: "datetime \<Rightarrow> bool" where
  "fecha_valida t \<longleftrightarrow>
     1 \<le> year t \<and> year t \<le> 9999 \<and> 1 \<le> month t \<and> month t \<le> 12
     \<and> 1 \<le> day t \<and> day t \<le> days_in_month (year t) (month t)"

definition days_before_year :: "int \<Rightarrow> int" where
  "days_before_year y = (y - 1) * 365 + (y - 1) div 4 - (y - 1) div 100 + (y - 1) div 400"

definition days_before_month :: "int \<Rightarrow> int \<Rightarrow> int" where
  "days_before_month y m =
     [0, 0, 31, 59, 90, 120, 151, 181, 212, 243, 273, 304, 334] ! nat m
       + (if 2 < m \<and> is_leap y then 1 else 0)"

definition toordinal :: "datetime \<Rightarrow> int" where
  "toordinal t = days_before_year (year t) + days_before_month (year t) (month t) + day t"

fun valor_decimal_desde :: "int \<Rightarrow> string \<Rightarrow> int option" where
  "valor_decimal_desde acc [] = Some acc"
| "valor_decimal_desde acc (c # cs) =
     (if c \<in> set ''0123456789'' then valor_decimal_desde (10 * acc + (of_char c - 48)) cs
      else None)"

definition valor_decimal :: "string \<Rightarrow> int option" where
  "valor_decimal s = (case s of [] \<Rightarrow> None | c # cs \<Rightarrow> valor_decimal_desde 0 s)"

definition el_dia :: "int \<Rightarrow> int \<Rightarrow> int \<Rightarrow> datetime" where
  "el_dia d m y = \<lparr>year = y, month = m, day = d, hour = 7, minute = 30, second = 0,
                   microsecond = 0\<rparr>"

section \<open>Report selector\<close>

text \<open>
  \<^verbatim>\<open>seleccionar_fila_reporte\<close>. What the browser answers is given by three outcomes:
  the value that \<^verbatim>\<open>driver.execute_script(js_script)\<close> returns (the script answers
  \<^verbatim>\<open>"OK"\<close>, \<^verbatim>\<open>"GRID_NOT_FOUND"\<close>, \<^verbatim>\<open>"ID_NOT_FOUND"\<close> or \<^verbatim>\<open>"ERROR: ..."\<close>) or the
  exception it raises, the outcome of waiting for the row of the DOM fallback, and the
  outcome of the scripted click on that row. The driver calls made are returned with the
  result. \<^verbatim>\<open>except Exception\<close> turns every instance of \<^verbatim>\<open>Exception\<close> into
  \<^verbatim>\<open>return False\<close>.
\<close>

record seleccion_env =
  js_resultado :: "py_exc + string"
  dom_fila :: "py_exc + unit"
  dom_click :: "py_exc + unit"

datatype accion_seleccion = GridApi | BusquedaDom | ClickDom

definition except_Exception_False :: "py_exc \<Rightarrow> py_exc + bool" where
  "except_Exception_False e = (if is_Exception e then Inr False else Inl e)"

definition seleccionar_fila_reporte ::
  "seleccion_env \<Rightarrow> accion_seleccion list \<times> (py_exc + bool)" where
  "seleccionar_fila_reporte w =
     (case js_resultado w of
        Inl e \<Rightarrow> ([GridApi], except_Exception_False e)
      | Inr resultado \<Rightarrow>
          if resultado = ''OK'' then ([GridApi], Inr True)
          else if resultado = ''GRID_NOT_FOUND'' then ([GridApi], Inr False)
          else
            (case dom_fila w of
               Inl e \<Rightarrow> ([GridApi, BusquedaDom], except_Exception_False e)
             | Inr fila \<Rightarrow>
                 (case dom_click w of
                    Inl e \<Rightarrow> ([GridApi, BusquedaDom, ClickDom], except_Exception_False e)
                  | Inr u \<Rightarrow> ([GridApi, BusquedaDom, ClickDom], Inr True))))"

text \<open>Five answers of the browser: one for each outcome of the grid API, a fallback
  that finds no row, and a grid call that raises on a page where the fallback would find
  and click the row.\<close>

definition sel_ok :: seleccion_env where
  "sel_ok = \<lparr>js_resultado = Inr ''OK'', dom_fila = Inl TimeoutException, dom_click = Inr ()\<rparr>"

definition sel_sin_grid :: seleccion_env where
  "sel_sin_grid = \<lparr>js_resultado = Inr ''GRID_NOT_FOUND'', dom_fila = Inr (), dom_click = Inr ()\<rparr>"

definition sel_fallback :: seleccion_env where
  "sel_fallback = \<lparr>js_resultado = Inr ''ID_NOT_FOUND'', dom_fila = Inr (), dom_click = Inr ()\<rparr>"

definition sel_sin_fila :: seleccion_env where
  "sel_sin_fila = \<lparr>js_resultado = Inr ''ID_NOT_FOUND'', dom_fila = Inl TimeoutException,
                    dom_click = Inr ()\<rparr>"

definition sel_grid_excepcion :: seleccion_env where
  "sel_grid_excepcion =
     \<lparr>js_resultado = Inl WebDriverException, dom_fila = Inr (), dom_click = Inr ()\<rparr>"

section \<open>Context recovery\<close>

text \<open>
  \<^verbatim>\<open>cerrar_modal_y_volver\<close>. Every driver call is given by its outcome: the list that
  \<^verbatim>\<open>driver.window_handles\<close> returns, \<^verbatim>\<open>switch_to.window\<close> and \<^verbatim>\<open>close\<close> for each
  handle, \<^verbatim>\<open>switch_to.default_content\<close>, the wait for the modal overlay, and, for the
  handler of the outer \<^verbatim>\<open>try\<close>, the three calls of the forced reset. The driver calls
  that completed and the log entries written (\<^verbatim>\<open>logger.info\<close>, and
  \<^verbatim>\<open>logger.warning\<close> with the exception it reports) are returned, in order, with the
  result; \<open>Inl e\<close> as result is an exception that leaves the function.
\<close>

record recuperacion_env =
  window_handles_r :: "py_exc + string list"
  switch_to_window_r :: "string \<Rightarrow> py_exc + unit"
  close_r :: "string \<Rightarrow> py_exc + unit"
  default_content_r :: "py_exc + unit"
  espera_modal_r :: "py_exc + unit"
  reset_default_content_r :: "py_exc + unit"
  reset_window_handles_r :: "py_exc + string list"
  reset_switch_to_window_r :: "string \<Rightarrow> py_exc + unit"

datatype accion_driver =
    SwitchToWindow string
  | Close string
  | DefaultContent
  | Sleep nat
  | LoggerInfo
  | LoggerWarning py_exc

text \<open>The loop \<^verbatim>\<open>for handle in handles_actuales\<close>.\<close>

fun cerrar_ventanas ::
  "recuperacion_env \<Rightarrow> string \<Rightarrow> string list \<Rightarrow> accion_driver list \<times> (py_exc + unit)" where
  "cerrar_ventanas w handle_original [] = ([], Inr ())"
| "cerrar_ventanas w handle_original (h # handles) =
     (if h \<noteq> handle_original then
        (case switch_to_window_r w h of
           Inl e \<Rightarrow> ([], Inl e)
         | Inr u \<Rightarrow>
             (case close_r w h of
                Inl e \<Rightarrow> ([SwitchToWindow h], Inl e)
              | Inr u \<Rightarrow>
                  (case cerrar_ventanas w handle_original handles of
                     (hechas, r) \<Rightarrow> (SwitchToWindow h # Close h # hechas, r))))
      else cerrar_ventanas w handle_original handles)"

text \<open>The body of the outer \<^verbatim>\<open>try\<close>.\<close>

definition volver_contexto ::
  "recuperacion_env \<Rightarrow> string \<Rightarrow> string list \<Rightarrow> accion_driver list \<times> (py_exc + unit)" where
  "volver_contexto w handle_original handles_actuales =
     (if length handles_actuales > 1 then
        (case cerrar_ventanas w handle_original handles_actuales of
           (hechas, Inl e) \<Rightarrow> (hechas, Inl e)
         | (hechas, Inr u) \<Rightarrow>
             (case switch_to_window_r w handle_original of
                Inl e \<Rightarrow> (hechas, Inl e)
              | Inr u \<Rightarrow> (hechas @ [SwitchToWindow handle_original, LoggerInfo], Inr ())))
      else
        (case default_content_r w of
           Inl e \<Rightarrow> ([], Inl e)
         | Inr u \<Rightarrow> ([DefaultContent, LoggerInfo], Inr ())))"

definition cerrar_modal_try ::
  "recuperacion_env \<Rightarrow> string \<Rightarrow> accion_driver list \<times> (py_exc + unit)" where
  "cerrar_modal_try w handle_original =
     (case window_handles_r w of
        Inl e \<Rightarrow> ([], Inl e)
      | Inr handles_actuales \<Rightarrow>
          (case volver_contexto w handle_original handles_actuales of
             (hechas, Inl e) \<Rightarrow> (hechas, Inl e)
           | (hechas, Inr u) \<Rightarrow>
               (case espera_modal_r w of
                  Inl e \<Rightarrow>
                    if is_TimeoutException e then (hechas @ [Sleep 2], Inr ())
                    else (hechas, Inl e)
                | Inr u \<Rightarrow> (hechas @ [Sleep 2], Inr ()))))"

text \<open>The forced reset of the handler: root document, then the first window handle.\<close>

definition reset_forzado :: "recuperacion_env \<Rightarrow> accion_driver list \<times> (py_exc + unit)" where
  "reset_forzado w =
     (case reset_default_content_r w of
        Inl e \<Rightarrow> ([], Inl e)
      | Inr u \<Rightarrow>
          (case reset_window_handles_r w of
             Inl e \<Rightarrow> ([DefaultContent], Inl e)
           | Inr [] \<Rightarrow> ([DefaultContent], Inl IndexError)
           | Inr (h # resto) \<Rightarrow>
               (case reset_switch_to_window_r w h of
                  Inl e \<Rightarrow> ([DefaultContent], Inl e)
                | Inr u \<Rightarrow> ([DefaultContent, SwitchToWindow h], Inr ()))))"

text \<open>
  The whole function. The handler \<^verbatim>\<open>except Exception as e\<close> writes the warning and
  runs the forced reset inside \<^verbatim>\<open>try: ... except Exception: pass\<close>.
\<close>

definition cerrar_modal_y_volver ::
  "recuperacion_env \<Rightarrow> string \<Rightarrow> accion_driver list \<times> (py_exc + unit)" where
  "cerrar_modal_y_volver w handle_original =
     (case cerrar_modal_try w handle_original of
        (hechas, Inr u) \<Rightarrow> (hechas, Inr ())
      | (hechas, Inl e) \<Rightarrow>
          if is_Exception e then
            (case reset_forzado w of
               (hechas2, Inr u) \<Rightarrow> (hechas @ LoggerWarning e # hechas2, Inr ())
             | (hechas2, Inl e2) \<Rightarrow>
                 if is_Exception e2 then (hechas @ LoggerWarning e # hechas2, Inr ())
                 else (hechas @ LoggerWarning e # hechas2, Inl e2))
          else (hechas, Inl e))"

fun es_warning :: "accion_driver \<Rightarrow> bool" where
  "es_warning (LoggerWarning e) = True"
| "es_warning a = False"

text \<open>
  The exceptions that the driver raises are instances of \<^verbatim>\<open>Exception\<close> (Selenium's
  derive from \<^verbatim>\<open>WebDriverException\<close>).
\<close>

definition excepciones_de_driver :: "recuperacion_env \<Rightarrow> bool" where
  "excepciones_de_driver w \<longleftrightarrow>
     (\<forall>e. window_handles_r w = Inl e \<longrightarrow> is_Exception e)
     \<and> (\<forall>h e. switch_to_window_r w h = Inl e \<longrightarrow> is_Exception e)
     \<and> (\<forall>h e. close_r w h = Inl e \<longrightarrow> is_Exception e)
     \<and> (\<forall>e. default_content_r w = Inl e \<longrightarrow> is_Exception e)
     \<and> (\<forall>e. espera_modal_r w = Inl e \<longrightarrow> is_Exception e)
     \<and> (\<forall>e. reset_default_content_r w = Inl e \<longrightarrow> is_Exception e)
     \<and> (\<forall>e. reset_window_handles_r w = Inl e \<longrightarrow> is_Exception e)
     \<and> (\<forall>h e. reset_switch_to_window_r w h = Inl e \<longrightarrow> is_Exception e)"

text \<open>A browser that has crashed: every driver call raises.\<close>

definition driver_caido :: recuperacion_env where
  "driver_caido =
     \<lparr>window_handles_r = Inl WebDriverException,
      switch_to_window_r = (\<lambda>h. Inl WebDriverException),
      close_r = (\<lambda>h. Inl WebDriverException),
      default_content_r = Inl WebDriverException,
      espera_modal_r = Inl WebDriverException,
      reset_default_content_r = Inl WebDriverException,
      reset_window_handles_r = Inl WebDriverException,
      reset_switch_to_window_r = (\<lambda>h. Inl WebDriverException)\<rparr>"

text \<open>A popup whose window cannot be closed, and no window left for the reset.\<close>

definition popup_atascado :: recuperacion_env where
  "popup_atascado =
     \<lparr>window_handles_r = Inr [''main'', ''popup''],
      switch_to_window_r = (\<lambda>h. Inr ()),
      close_r = (\<lambda>h. Inl WebDriverException),
      default_content_r = Inr (),
      espera_modal_r = Inr (),
      reset_default_content_r = Inr (),
      reset_window_handles_r = Inr [],
      reset_switch_to_window_r = (\<lambda>h. Inr ())\<rparr>"

section \<open>Parameter-modal handler\<close>

text \<open>
  \<^verbatim>\<open>manejar_modal_parametros\<close>. The browser is given by the outcome of each driver
  call. \<^verbatim>\<open>esperar_spinner\<close> and \<^verbatim>\<open>time.sleep\<close> neither raise nor return a value and
  are left out. The block that sets the two dates is one \<^verbatim>\<open>try\<close> whose handlers catch
  every \<^verbatim>\<open>Exception\<close>; its outcome is the first exception raised in it, or success.
\<close>

text \<open>One pass of \<^verbatim>\<open>for intento in range(3)\<close>: waiting for the button
  \<^verbatim>\<open>btnLoadOldParameters\<close>, calling \<^verbatim>\<open>btnLoadOldParameters_Click()\<close>, and the
  scripted click tried when that call raises.\<close>

record intento_parametros =
  boton_presente :: "py_exc + unit"
  funcion_js :: "py_exc + unit"
  click_js :: "py_exc + unit"

text \<open>One pass of \<^verbatim>\<open>for selector in selectores_ejecutar\<close>: waiting until the element
  is clickable, scrolling it into view, \<^verbatim>\<open>btn.click()\<close>, and the scripted click tried
  when \<^verbatim>\<open>btn.click()\<close> raises.\<close>

record intento_selector =
  clickable :: "py_exc + unit"
  scroll_into_view :: "py_exc + unit"
  click_directo :: "py_exc + unit"
  click_script :: "py_exc + unit"

record modal_env =
  current_window_handle_m :: "py_exc + string"
  handles_iniciales_m :: "py_exc + string list"
  handles_actuales_m :: "py_exc + string list"
  switch_to_window_m :: "string \<Rightarrow> py_exc + unit"
  find_iframes_m :: "py_exc + nat"
  switch_to_frame_m :: "py_exc + unit"
  parametros_m :: "nat \<Rightarrow> intento_parametros"
  fechas_m :: "py_exc + unit"
  selectores_m :: "nat \<Rightarrow> intento_selector"

text \<open>Where the handler is after the context detection: the context it was called in,
  a new window, or the last iframe.\<close>

datatype contexto = ContextoActual | VentanaNueva string | UltimoIframe

definition detectar_contexto :: "modal_env \<Rightarrow> py_exc + contexto" where
  "detectar_contexto w =
     (case current_window_handle_m w of
        Inl e \<Rightarrow> Inl e
      | Inr handle_original \<Rightarrow>
     (case handles_iniciales_m w of
        Inl e \<Rightarrow> Inl e
      | Inr handles_iniciales \<Rightarrow>
     (case handles_actuales_m w of
        Inl e \<Rightarrow> Inl e
      | Inr handles_actuales \<Rightarrow>
     (case filter (\<lambda>h. h \<notin> set handles_iniciales) handles_actuales of
        nueva_ventana # otras \<Rightarrow>
          (case switch_to_window_m w nueva_ventana of
             Inl e \<Rightarrow> Inl e
           | Inr u \<Rightarrow> Inr (VentanaNueva nueva_ventana))
      | [] \<Rightarrow>
          (case find_iframes_m w of
             Inl e \<Rightarrow> if is_Exception e then Inr ContextoActual else Inl e
           | Inr iframes \<Rightarrow>
               if iframes \<noteq> 0 then
                 (case switch_to_frame_m w of
                    Inl e \<Rightarrow> if is_Exception e then Inr ContextoActual else Inl e
                  | Inr u \<Rightarrow> Inr UltimoIframe)
               else Inr ContextoActual)))))"

definition intento_cargar :: "intento_parametros \<Rightarrow> py_exc + unit" where
  "intento_cargar i =
     (case boton_presente i of
        Inl e \<Rightarrow> Inl e
      | Inr btn_params \<Rightarrow>
          (case funcion_js i of
             Inr u \<Rightarrow> Inr ()
           | Inl e \<Rightarrow> if is_Exception e then click_js i else Inl e))"

text \<open>The loop over \<^verbatim>\<open>range(3)\<close>, from pass \<open>intento\<close> with \<open>restantes\<close> passes
  left; the result is \<^verbatim>\<open>usar_ultimos_params\<close>.\<close>

fun cargar_ultimos_parametros ::
  "(nat \<Rightarrow> intento_parametros) \<Rightarrow> nat \<Rightarrow> nat \<Rightarrow> py_exc + bool" where
  "cargar_ultimos_parametros ps intento 0 = Inr False"
| "cargar_ultimos_parametros ps intento (Suc restantes) =
     (case intento_cargar (ps intento) of
        Inr u \<Rightarrow> Inr True
      | Inl e \<Rightarrow>
          if is_Exception e then cargar_ultimos_parametros ps (Suc intento) restantes
          else Inl e)"

definition establecer_fechas :: "modal_env \<Rightarrow> py_exc + bool" where
  "establecer_fechas w =
     (case fechas_m w of
        Inr u \<Rightarrow> Inr True
      | Inl e \<Rightarrow> if is_Exception e then Inr False else Inl e)"

text \<open>
  The candidate selectors, by their position in \<^verbatim>\<open>selectores_ejecutar\<close>:
  0 is \<^verbatim>\<open>//input[@id='btnEjecutar']\<close>, 1 is \<^verbatim>\<open>//button[@id='btnEjecutar']\<close>,
  2 is \<^verbatim>\<open>//input[@value='Ejecutar']\<close>, 3 is \<^verbatim>\<open>//button[contains(text(), 'Ejecutar')]\<close>,
  4 is \<^verbatim>\<open>//a[contains(text(), 'Ejecutar')]\<close>, 5 is \<^verbatim>\<open>//input[@type='submit']\<close>,
  6 is \<^verbatim>\<open>//input[@type='button'][contains(@value, 'jecuta')]\<close> and
  7 is \<^verbatim>\<open>//*[contains(@onclick, 'Ejecutar')]\<close>.
\<close>

definition selectores_ejecutar :: "nat list" where
  "selectores_ejecutar = [0, 1, 2, 3, 4, 5, 6, 7]"

definition intento_click :: "intento_selector \<Rightarrow> py_exc + unit" where
  "intento_click s =
     (case clickable s of
        Inl e \<Rightarrow> Inl e
      | Inr btn \<Rightarrow>
          (case scroll_into_view s of
             Inl e \<Rightarrow> Inl e
           | Inr u \<Rightarrow>
               (case click_directo s of
                  Inr u \<Rightarrow> Inr ()
                | Inl e \<Rightarrow> if is_Exception e then click_script s else Inl e)))"

text \<open>The loop over the selectors; the result is the selector whose element was
  clicked, \<open>None\<close> when \<^verbatim>\<open>boton_clickeado\<close> stays false.\<close>

fun click_ejecutar_modal ::
  "(nat \<Rightarrow> intento_selector) \<Rightarrow> nat list \<Rightarrow> py_exc + nat option" where
  "click_ejecutar_modal ss [] = Inr None"
| "click_ejecutar_modal ss (selector # resto) =
     (case intento_click (ss selector) of
        Inr u \<Rightarrow> Inr (Some selector)
      | Inl e \<Rightarrow> if is_Exception e then click_ejecutar_modal ss resto else Inl e)"

definition manejar_modal_parametros :: "modal_env \<Rightarrow> py_exc + bool" where
  "manejar_modal_parametros w =
     (case detectar_contexto w of
        Inl e \<Rightarrow> Inl e
      | Inr ctx \<Rightarrow>
     (case cargar_ultimos_parametros (parametros_m w) 0 3 of
        Inl e \<Rightarrow> Inl e
      | Inr usar_ultimos_params \<Rightarrow>
     (case establecer_fechas w of
        Inl e \<Rightarrow> Inl e
      | Inr fechas_establecidas \<Rightarrow>
     (case click_ejecutar_modal (selectores_m w) selectores_ejecutar of
        Inl e \<Rightarrow> Inl e
      | Inr None \<Rightarrow> Inr False
      | Inr (Some selector) \<Rightarrow> Inr True))))"

text \<open>An outcome that is a normal return or an instance of \<^verbatim>\<open>Exception\<close>.\<close>

definition solo_Exception :: "py_exc + 'a \<Rightarrow> bool" where
  "solo_Exception r = (case r of Inl e \<Rightarrow> is_Exception e | Inr v \<Rightarrow> True)"

definition excepciones_de_modal :: "modal_env \<Rightarrow> bool" where
  "excepciones_de_modal w \<longleftrightarrow>
     (\<forall>i. solo_Exception (boton_presente (parametros_m w i))
          \<and> solo_Exception (funcion_js (parametros_m w i))
          \<and> solo_Exception (click_js (parametros_m w i)))
     \<and> solo_Exception (fechas_m w)
     \<and> (\<forall>s. solo_Exception (clickable (selectores_m w s))
          \<and> solo_Exception (scroll_into_view (selectores_m w s))
          \<and> solo_Exception (click_directo (selectores_m w s))
          \<and> solo_Exception (click_script (selectores_m w s)))"

text \<open>
  Two pages. On both, the execute button opened no window and the page has no iframe, the
  button of the previous parameters never appears and the date fields are missing. On
  the first the modal's own button \<^verbatim>\<open>btnEjecutar\<close> is there and is clicked; on the
  second no candidate selector matches.
\<close>

definition sin_boton_parametros :: intento_parametros where
  "sin_boton_parametros =
     \<lparr>boton_presente = Inl TimeoutException, funcion_js = Inr (), click_js = Inr ()\<rparr>"

definition selector_encontrado :: intento_selector where
  "selector_encontrado =
     \<lparr>clickable = Inr (), scroll_into_view = Inr (), click_directo = Inr (),
      click_script = Inr ()\<rparr>"

definition selector_ausente :: intento_selector where
  "selector_ausente =
     \<lparr>clickable = Inl TimeoutException, scroll_into_view = Inr (), click_directo = Inr (),
      click_script = Inr ()\<rparr>"

definition modal_sin_contexto :: modal_env where
  "modal_sin_contexto =
     \<lparr>current_window_handle_m = Inr ''main'',
      handles_iniciales_m = Inr [''main''],
      handles_actuales_m = Inr [''main''],
      switch_to_window_m = (\<lambda>h. Inr ()),
      find_iframes_m = Inr 0,
      switch_to_frame_m = Inr (),
      parametros_m = (\<lambda>i. sin_boton_parametros),
      fechas_m = Inl NoSuchElementException,
      selectores_m = (\<lambda>s. if s = 0 then selector_encontrado else selector_ausente)\<rparr>"

definition modal_sin_boton :: modal_env where
  "modal_sin_boton = modal_sin_contexto\<lparr>selectores_m := (\<lambda>s. selector_ausente)\<rparr>"

text \<open>The first page again, with a search for iframes that raises.\<close>

definition modal_busqueda_falla :: modal_env where
  "modal_busqueda_falla = modal_sin_contexto\<lparr>find_iframes_m := Inl WebDriverException\<rparr>"

section \<open>Extraction driver\<close>

text \<open>
  \<^verbatim>\<open>descargar_reporte\<close> is wrapped by \<^verbatim>\<open>stop_after_attempt(2)\<close>,
  \<^verbatim>\<open>wait_exponential(multiplier=2, min=10, max=60)\<close> and
  \<^verbatim>\<open>retry_if_exception_type((WebDriverException, TimeoutException, TimeoutError))\<close>. The
  body of \<^verbatim>\<open>descargar_reporte\<close> is given by its outcome at each attempt: the path of the
  downloaded file, or the exception it raises again after its own clean-up.
\<close>

definition reintentable :: "py_exc \<Rightarrow> bool" where
  "reintentable e \<longleftrightarrow> is_WebDriverException e \<or> is_TimeoutException e \<or> e = TimeoutError"

definition descargar_reporte_retry :: "(nat \<Rightarrow> py_exc + string) \<Rightarrow> int list \<times> (py_exc + string)" where
  "descargar_reporte_retry fn = retrying 2 (wait_exponential 2 10 60 2) reintentable fn 1"

text \<open>
  A report exhausts its retry budget: both attempts raise an exception of the retried
  types.
\<close>

definition agota_reintentos :: "(nat \<Rightarrow> py_exc + string) \<Rightarrow> bool" where
  "agota_reintentos fn =
     (case fn 1 of
        Inr archivo \<Rightarrow> False
      | Inl e1 \<Rightarrow> reintentable e1
          \<and> (case fn 2 of Inr archivo \<Rightarrow> False | Inl e2 \<Rightarrow> reintentable e2))"

record reporte =
  reporte_id :: string
  reporte_nombre :: string

definition REPORTES :: "reporte list" where
  "REPORTES =
     [\<lparr>reporte_id = ''23'', reporte_nombre = ''Conducta - Agentes''\<rparr>,
      \<lparr>reporte_id = ''24'', reporte_nombre = ''Estados operativos - Agentes''\<rparr>]"

text \<open>
  What happens while one report of the list is processed: the outcomes of the attempts
  of \<^verbatim>\<open>descargar_reporte\<close> and, for the handler of \<^verbatim>\<open>ejecutar_extraccion\<close>, the value of
  \<^verbatim>\<open>driver.current_url\<close> and the outcomes of the two calls of \<^verbatim>\<open>navegar_a_reportes\<close>
  (each with its own retries), the one in the \<^verbatim>\<open>try\<close> and the one in its
  \<^verbatim>\<open>except Exception\<close>.
\<close>

record evento_reporte =
  intentos :: "nat \<Rightarrow> py_exc + string"
  current_url_r :: "py_exc + string"
  navegar_try_r :: "py_exc + unit"
  navegar_except_r :: "py_exc + unit"

text \<open>\<^verbatim>\<open>sub in s\<close> for strings.\<close>

fun contiene :: "string \<Rightarrow> string \<Rightarrow> bool" where
  "contiene sub [] = (sub = [])"
| "contiene sub (c # s) = (take (length sub) (c # s) = sub \<or> contiene sub s)"

text \<open>The handler \<^verbatim>\<open>except Exception as e\<close> of the loop, up to its \<^verbatim>\<open>continue\<close>.\<close>

definition verificar_estado :: "evento_reporte \<Rightarrow> py_exc + unit" where
  "verificar_estado ev =
     (case current_url_r ev of
        Inl e \<Rightarrow> Inl e
      | Inr url \<Rightarrow> if \<not> contiene ''ProcessAndReports'' url then navegar_try_r ev else Inr ())"

definition recuperar_navegacion :: "evento_reporte \<Rightarrow> py_exc + unit" where
  "recuperar_navegacion ev =
     (case verificar_estado ev of
        Inr u \<Rightarrow> Inr ()
      | Inl e \<Rightarrow> if is_Exception e then navegar_except_r ev else Inl e)"

text \<open>
  The loop \<^verbatim>\<open>for reporte in REPORTES\<close>, at the report number \<open>i\<close> of the list, with
  \<^verbatim>\<open>archivos_descargados\<close> so far. \<open>Inl e\<close> is an exception that leaves the loop.
\<close>

fun descargar_cada_reporte ::
  "(nat \<Rightarrow> evento_reporte) \<Rightarrow> nat \<Rightarrow> reporte list \<Rightarrow> string list \<Rightarrow> py_exc + string list" where
  "descargar_cada_reporte evs i [] archivos_descargados = Inr archivos_descargados"
| "descargar_cada_reporte evs i (r # resto) archivos_descargados =
     (case snd (descargar_reporte_retry (intentos (evs i))) of
        Inr archivo \<Rightarrow>
          descargar_cada_reporte evs (Suc i) resto (archivos_descargados @ [archivo])
      | Inl e \<Rightarrow>
          if is_Exception e then
            (case recuperar_navegacion (evs i) of
               Inr u \<Rightarrow> descargar_cada_reporte evs (Suc i) resto archivos_descargados
             | Inl e2 \<Rightarrow> Inl e2)
          else Inl e)"

text \<open>
  \<^verbatim>\<open>ejecutar_extraccion\<close>: start the browser, log in, go to the report list, then the
  loop. The outer \<^verbatim>\<open>except Exception\<close> takes a screenshot and raises the exception
  again, and \<^verbatim>\<open>finally\<close> closes the browser: neither changes the outcome.
\<close>

record extraccion_env =
  iniciar_chrome_r :: "py_exc + unit"
  login_neotel_r :: "py_exc + unit"
  navegar_a_reportes_r :: "py_exc + unit"
  eventos :: "nat \<Rightarrow> evento_reporte"

definition ejecutar_extraccion :: "extraccion_env \<Rightarrow> reporte list \<Rightarrow> py_exc + string list" where
  "ejecutar_extraccion w reportes =
     (case iniciar_chrome_r w of
        Inl e \<Rightarrow> Inl e
      | Inr u \<Rightarrow>
     (case login_neotel_r w of
        Inl e \<Rightarrow> Inl e
      | Inr u \<Rightarrow>
     (case navegar_a_reportes_r w of
        Inl e \<Rightarrow> Inl e
      | Inr u \<Rightarrow> descargar_cada_reporte (eventos w) 0 reportes [])))"

text \<open>
  The paths that the reports from number \<open>i\<close> on, \<open>n\<close> of them, download, in the order
  of the list.
\<close>

definition descargados :: "(nat \<Rightarrow> evento_reporte) \<Rightarrow> nat \<Rightarrow> nat \<Rightarrow> string list" where
  "descargados evs i n =
     concat (map (\<lambda>j. case snd (descargar_reporte_retry (intentos (evs j))) of
                         Inr archivo \<Rightarrow> [archivo] | Inl e \<Rightarrow> [])
                 [i ..< i + n])"

text \<open>
  The handler gets back to the report list: the browser is still on a URL with
  \<^verbatim>\<open>ProcessAndReports\<close>, or the call of \<^verbatim>\<open>navegar_a_reportes\<close> in the \<^verbatim>\<open>try\<close> returns, or
  the reading of the URL or that call raises an instance of \<^verbatim>\<open>Exception\<close> and the call of
  \<^verbatim>\<open>navegar_a_reportes\<close> in the \<^verbatim>\<open>except\<close> returns.
\<close>

definition regresa_a_lista :: "evento_reporte \<Rightarrow> bool" where
  "regresa_a_lista ev =
     (case current_url_r ev of
        Inr url \<Rightarrow>
          contiene ''ProcessAndReports'' url
          \<or> (case navegar_try_r ev of
                Inr u \<Rightarrow> True
              | Inl e \<Rightarrow> is_Exception e \<and> navegar_except_r ev = Inr ())
      | Inl e \<Rightarrow> is_Exception e \<and> navegar_except_r ev = Inr ())"

text \<open>
  The condition under which the loop goes on after a report: it was downloaded, or it
  failed with an instance of \<^verbatim>\<open>Exception\<close> and the handler got back to the report list.
\<close>

definition continua :: "evento_reporte \<Rightarrow> bool" where
  "continua ev =
     (case snd (descargar_reporte_retry (intentos ev)) of
        Inr archivo \<Rightarrow> True
      | Inl e \<Rightarrow> is_Exception e \<and> regresa_a_lista ev)"

text \<open>
  Three courses of a report: every attempt times out and the browser is left on another
  page from which the report list cannot be reached any more; every attempt times out
  and the browser is still on the report list; the first attempt downloads the file.
\<close>

definition agotado_sin_regreso :: evento_reporte where
  "agotado_sin_regreso =
     \<lparr>intentos = (\<lambda>n. Inl TimeoutException),
      current_url_r = Inr ''https://web.neoteluin.mx/callcenter/default.htm'',
      navegar_try_r = Inl RetryError,
      navegar_except_r = Inl RetryError\<rparr>"

definition agotado_en_lista :: evento_reporte where
  "agotado_en_lista =
     \<lparr>intentos = (\<lambda>n. Inl TimeoutException),
      current_url_r =
        Inr ''https://web.neoteluin.mx/callcenter/ProcessAndReports.aspx?tipo=Reporte'',
      navegar_try_r = Inr (),
      navegar_except_r = Inr ()\<rparr>"

definition descargado :: evento_reporte where
  "descargado =
     \<lparr>intentos = (\<lambda>n. Inr ''temp_neotel_downloads/estados.csv''),
      current_url_r =
        Inr ''https://web.neoteluin.mx/callcenter/ProcessAndReports.aspx?tipo=Reporte'',
      navegar_try_r = Inr (),
      navegar_except_r = Inr ()\<rparr>"

definition sesion :: "evento_reporte \<Rightarrow> evento_reporte \<Rightarrow> extraccion_env" where
  "sesion primero segundo =
     \<lparr>iniciar_chrome_r = Inr (), login_neotel_r = Inr (), navegar_a_reportes_r = Inr (),
      eventos = (\<lambda>i. if i = 0 then primero else segundo)\<rparr>"

section \<open>Time values\<close>

text \<open>
  The values that a cell of a DataFrame column holds: \<^verbatim>\<open>None\<close>, a float, an int or a
  string. A float is a rational number, an infinity or NaN. Two conversions of Python
  are parameters of the model: \<open>rnd\<close> rounds a rational number within the range of a
  double to the nearest double, and \<open>float_of_str\<close> is \<^verbatim>\<open>float(s)\<close> on a string
  (\<open>None\<close> when it raises \<^verbatim>\<open>ValueError\<close>). What is modelled of the floats is their
  range: converting an int to a float, and dividing two ints, raises
  \<^verbatim>\<open>OverflowError\<close> when the result rounds beyond the largest double, that is when
  its magnitude is at least \<open>2 ^ 1024 - 2 ^ 970\<close>; an addition of floats beyond the range
  gives an infinity.
\<close>

datatype py_float = Finite rat | PosInf | NegInf | NaN

datatype py_value = PyNone | PyFloat py_float | PyInt int | PyStr string

definition limite_float :: rat where
  "limite_float = 2 ^ 1024 - 2 ^ 970"

definition float_of_int :: "(rat \<Rightarrow> rat) \<Rightarrow> int \<Rightarrow> py_exc + py_float" where
  "float_of_int rnd n =
     (if limite_float \<le> \<bar>of_int n\<bar> then Inl OverflowError else Inr (Finite (rnd (of_int n))))"

definition truediv :: "(rat \<Rightarrow> rat) \<Rightarrow> int \<Rightarrow> int \<Rightarrow> py_exc + py_float" where
  "truediv rnd a b =
     (if limite_float \<le> \<bar>of_int a / of_int b\<bar> then Inl OverflowError
      else Inr (Finite (rnd (of_int a / of_int b))))"

definition float_redondeado :: "(rat \<Rightarrow> rat) \<Rightarrow> rat \<Rightarrow> py_float" where
  "float_redondeado rnd x =
     (if limite_float \<le> x then PosInf else if x \<le> - limite_float then NegInf
      else Finite (rnd x))"

fun float_add :: "(rat \<Rightarrow> rat) \<Rightarrow> py_float \<Rightarrow> py_float \<Rightarrow> py_float" where
  "float_add rnd (Finite x) (Finite y) = float_redondeado rnd (x + y)"
| "float_add rnd NaN b = NaN"
| "float_add rnd a NaN = NaN"
| "float_add rnd PosInf NegInf = NaN"
| "float_add rnd NegInf PosInf = NaN"
| "float_add rnd PosInf b = PosInf"
| "float_add rnd NegInf b = NegInf"
| "float_add rnd a PosInf = PosInf"
| "float_add rnd a NegInf = NegInf"

text \<open>
  \<^verbatim>\<open>str.strip()\<close>. A character of the model is a code point below 256; those for which
  \<^verbatim>\<open>str.isspace\<close> holds are 9 to 13, 28 to 32, 133 and 160.
\<close>

definition es_espacio :: "char \<Rightarrow> bool" where
  "es_espacio c \<longleftrightarrow>
     (let k = (of_char c :: nat)
      in (9 \<le> k \<and> k \<le> 13) \<or> (28 \<le> k \<and> k \<le> 32) \<or> k = 133 \<or> k = 160)"

definition strip :: "string \<Rightarrow> string" where
  "strip s = rev (dropWhile es_espacio (rev (dropWhile es_espacio s)))"

text \<open>\<^verbatim>\<open>str.split(':')\<close>.\<close>

fun split :: "char \<Rightarrow> string \<Rightarrow> string list" where
  "split sep [] = [[]]"
| "split sep (c # cs) =
     (if c = sep then [] # split sep cs
      else (case split sep cs of [] \<Rightarrow> [[c]] | p # ps \<Rightarrow> (c # p) # ps))"

text \<open>
  \<^verbatim>\<open>int(s)\<close> on a string: surrounding whitespace, an optional sign, then decimal
  digits, with single underscores allowed between digits; anything else raises
  \<^verbatim>\<open>ValueError\<close>, and so does a string of more than \<^verbatim>\<open>sys.get_int_max_str_digits()\<close>
  digits (4300 unless configured otherwise), as does \<^verbatim>\<open>str(n)\<close> on an int of more than
  that many digits.
\<close>

definition int_max_str_digits :: nat where
  "int_max_str_digits = 4300"

definition es_digito :: "char \<Rightarrow> bool" where
  "es_digito c \<longleftrightarrow> (let k = (of_char c :: nat) in 48 \<le> k \<and> k \<le> 57)"

definition valor_digito :: "char \<Rightarrow> int" where
  "valor_digito c = of_char c - 48"

fun leer_digitos :: "string \<Rightarrow> int \<Rightarrow> bool \<Rightarrow> int option" where
  "leer_digitos [] acc tras_guion = (if tras_guion then None else Some acc)"
| "leer_digitos (c # cs) acc tras_guion =
     (if es_digito c then leer_digitos cs (10 * acc + valor_digito c) False
      else if c = CHR ''_'' \<and> \<not> tras_guion then leer_digitos cs acc True
      else None)"

definition leer_natural :: "string \<Rightarrow> py_exc + int" where
  "leer_natural s =
     (case s of
        [] \<Rightarrow> Inl ValueError
      | c # cs \<Rightarrow>
          if es_digito c then
            (case leer_digitos cs (valor_digito c) False of
               None \<Rightarrow> Inl ValueError
             | Some n \<Rightarrow> Inr n)
          else Inl ValueError)"

definition py_int :: "string \<Rightarrow> py_exc + int" where
  "py_int s =
     (if int_max_str_digits < length (filter es_digito s) then Inl ValueError
      else
        (case strip s of
           [] \<Rightarrow> Inl ValueError
         | c # cs \<Rightarrow>
             if c = CHR ''-'' then
               (case leer_natural cs of Inl e \<Rightarrow> Inl e | Inr n \<Rightarrow> Inr (- n))
             else if c = CHR ''+'' then leer_natural cs
             else leer_natural (c # cs)))"

definition py_str_int :: "int \<Rightarrow> py_exc + unit" where
  "py_str_int n = (if 10 ^ int_max_str_digits \<le> \<bar>n\<bar> then Inl ValueError else Inr ())"

text \<open>
  \<^verbatim>\<open>convertir_tiempo_a_minutos\<close>. \<open>cuerpo_try\<close> is the body of the \<^verbatim>\<open>try\<close> on a
  string; the function proper handles the empty values first and turns
  \<^verbatim>\<open>ValueError\<close> and \<^verbatim>\<open>TypeError\<close>, and no other exception, into \<^verbatim>\<open>0.0\<close>. For a
  float, \<^verbatim>\<open>float(str(valor))\<close> is the float itself; for an int it is the nearest
  float, or an infinity, unless the first \<^verbatim>\<open>str(valor)\<close>, which is outside the \<^verbatim>\<open>try\<close>,
  raises.
\<close>

definition float_de_texto :: "(string \<Rightarrow> py_float option) \<Rightarrow> string \<Rightarrow> py_exc + py_float" where
  "float_de_texto float_of_str s =
     (case float_of_str s of None \<Rightarrow> Inl ValueError | Some x \<Rightarrow> Inr x)"

definition cuerpo_try ::
  "(rat \<Rightarrow> rat) \<Rightarrow> (string \<Rightarrow> py_float option) \<Rightarrow> string \<Rightarrow> py_exc + py_float" where
  "cuerpo_try rnd float_of_str valor_str =
     (if CHR '':'' \<in> set valor_str then
        (case split (CHR '':'') valor_str of
           [ph, pm, ps] \<Rightarrow>
             (case py_int ph of Inl e \<Rightarrow> Inl e | Inr h \<Rightarrow>
             (case py_int pm of Inl e \<Rightarrow> Inl e | Inr m \<Rightarrow>
             (case py_int ps of Inl e \<Rightarrow> Inl e | Inr s \<Rightarrow>
             (case truediv rnd s 60 of Inl e \<Rightarrow> Inl e | Inr q \<Rightarrow>
             (case float_of_int rnd (h * 60 + m) of Inl e \<Rightarrow> Inl e | Inr a \<Rightarrow>
                Inr (float_add rnd a q))))))
         | [ph, pm] \<Rightarrow>
             (case py_int ph of Inl e \<Rightarrow> Inl e | Inr h \<Rightarrow>
             (case py_int pm of Inl e \<Rightarrow> Inl e | Inr m \<Rightarrow>
                float_of_int rnd (h * 60 + m)))
         | parts \<Rightarrow> float_de_texto float_of_str valor_str)
      else float_de_texto float_of_str valor_str)"

definition convertir_tiempo_a_minutos ::
  "(rat \<Rightarrow> rat) \<Rightarrow> (string \<Rightarrow> py_float option) \<Rightarrow> py_value \<Rightarrow> py_exc + py_float" where
  "convertir_tiempo_a_minutos rnd float_of_str valor =
     (case valor of
        PyNone \<Rightarrow> Inr (Finite 0)
      | PyFloat NaN \<Rightarrow> Inr (Finite 0)
      | PyFloat x \<Rightarrow> Inr x
      | PyInt n \<Rightarrow>
          (case py_str_int n of
             Inl e \<Rightarrow> Inl e
           | Inr u \<Rightarrow> Inr (float_redondeado rnd (of_int n)))
      | PyStr s \<Rightarrow>
          if strip s \<in> set [''-'', '''', ''nan'', ''None''] then Inr (Finite 0)
          else
            (case cuerpo_try rnd float_of_str (strip s) of
               Inr x \<Rightarrow> Inr x
             | Inl e \<Rightarrow> if e = ValueError \<or> e = TypeError then Inr (Finite 0) else Inl e))"

text \<open>A time value of zero hours and a number of minutes of 310 digits.\<close>

definition minutos_enormes :: string where
  "minutos_enormes = ''0:1'' @ replicate 309 (CHR ''0'')"

section \<open>Authentication backoff\<close>

lemma retrying_step:
  "retrying m w p f n =
     (case f n of
        Inr v \<Rightarrow> ([], Inr v)
      | Inl e \<Rightarrow>
          if \<not> p e then ([], Inl e)
          else if m \<le> n then ([], Inl RetryError)
          else (case retrying m w p f (Suc n) of (sleeps, r) \<Rightarrow> (w n # sleeps, r)))"
  by (simp add: stop_after_attempt_def)

lemma retrying_sleeps:
  "fst (retrying m w p f n) = map w [n ..< n + length (fst (retrying m w p f n))]
   \<and> n + length (fst (retrying m w p f n)) \<le> max m n"
proof (induction m w p f n rule: retrying.induct)
  case (1 m w p f n)
  show ?case
  proof (cases "f n")
    case (Inr v)
    then show ?thesis by simp
  next
    case (Inl e)
    show ?thesis
    proof (cases "\<not> p e \<or> m \<le> n")
      case True
      with Inl show ?thesis by (auto simp: stop_after_attempt_def)
    next
      case False
      then have pe: "p e" and lt: "n < m" by auto
      from lt have ns: "\<not> stop_after_attempt m n" by (simp add: stop_after_attempt_def)
      obtain sl r where rec: "retrying m w p f (Suc n) = (sl, r)" by (cases "retrying m w p f (Suc n)")
      from "1.IH"[OF Inl _ ns] pe rec
      have ih: "sl = map w [Suc n ..< Suc n + length sl]" "Suc n + length sl \<le> max m (Suc n)"
        by auto
      have cur: "retrying m w p f n = (w n # sl, r)"
        using Inl pe lt rec by (subst retrying_step) simp
      have "[n ..< n + length (w n # sl)] = n # [Suc n ..< Suc n + length sl]"
        by (simp del: upt_Suc add: upt_conv_Cons)
      then have "w n # sl = map w [n ..< n + length (w n # sl)]"
        using ih(1) by simp
      moreover have "n + length (w n # sl) \<le> max m n" using ih(2) lt by simp
      ultimately show ?thesis using cur by simp
    qed
  qed
qed

text \<open>
  C1, as stated: under 5 consecutive transient failures the waits before the retries of
  the login are 4, 8, 16, 32, 40 seconds. The login policy gives another sequence.
\<close>

theorem login_backoff_counterexample:
  "fst (login_neotel_retry five_transient_failures) \<noteq> [4, 8, 16, 32, 40]"
  by (simp add: login_neotel_retry_def five_transient_failures_def stop_after_attempt_def
      login_neotel_wait_def wait_exponential_def)

text \<open>
  C1, amended: the login policy makes at most 3 attempts, so it sleeps at most twice; the
  sleep after failed attempt \<open>n\<close> is \<open>2 * 2 ^ (n - 1)\<close> seconds clamped to the range from
  4 to 40 (tenacity's \<^verbatim>\<open>min\<close> is a lower clamp, not the base of the progression), which
  is 4 seconds after the first and 4 seconds after the second attempt. When the first
  three attempts fail with a retryable error, as under 5 consecutive transient failures,
  the sleeps are exactly 4, 4 and the login ends with \<^verbatim>\<open>RetryError\<close>.
\<close>

theorem login_backoff:
  "length (fst (login_neotel_retry fn)) \<le> 2
   \<and> fst (login_neotel_retry fn) =
       map (\<lambda>n. max 4 (min (2 * 2 ^ (n - 1)) 40)) [1 ..< 1 + length (fst (login_neotel_retry fn))]
   \<and> set (fst (login_neotel_retry fn)) \<subseteq> {4}
   \<and> ((\<forall>n \<in> {1, 2, 3}. \<exists>e. fn n = Inl e \<and> is_WebDriverException e)
        \<longrightarrow> login_neotel_retry fn = ([4, 4], Inl RetryError))"
proof -
  let ?p = "\<lambda>e. is_WebDriverException e \<or> is_TimeoutException e"
  let ?sl = "fst (retrying 3 login_neotel_wait ?p fn 1)"
  have w: "login_neotel_wait = (\<lambda>n. max 4 (min (2 * 2 ^ (n - 1)) 40))"
    by (rule ext) (simp add: login_neotel_wait_def wait_exponential_def)
  from retrying_sleeps[of 3 login_neotel_wait ?p fn 1]
  have eq: "?sl = map login_neotel_wait [1 ..< 1 + length ?sl]" and le: "1 + length ?sl \<le> 3"
    by simp_all
  have len: "length ?sl \<le> 2" using le by simp
  have w1: "login_neotel_wait 1 = 4" and w2: "login_neotel_wait 2 = 4"
    by (simp_all add: login_neotel_wait_def wait_exponential_def)
  have vals: "set ?sl \<subseteq> {4}"
  proof
    fix x assume "x \<in> set ?sl"
    then have "x \<in> set (map login_neotel_wait [1 ..< 1 + length ?sl])" using eq by simp
    then obtain n where n: "1 \<le> n" "n < 1 + length ?sl" and x: "x = login_neotel_wait n"
      by auto
    from n len have "n = 1 \<or> n = 2" by arith
    with x w1 w2 show "x \<in> {4}" by auto
  qed
  have exhaust: "login_neotel_retry fn = ([4, 4], Inl RetryError)"
    if h: "\<forall>n \<in> {1, 2, 3}. \<exists>e. fn n = Inl e \<and> is_WebDriverException e"
  proof -
    from h obtain e1 e2 e3 where
      e: "fn 1 = Inl e1" "is_WebDriverException e1" "fn 2 = Inl e2" "is_WebDriverException e2"
         "fn 3 = Inl e3" "is_WebDriverException e3"
      by auto
    have s3: "retrying 3 login_neotel_wait ?p fn 3 = ([], Inl RetryError)"
      using e by (subst retrying_step) simp
    have s2: "retrying 3 login_neotel_wait ?p fn 2 = ([4], Inl RetryError)"
      using e s3 w2 by (subst retrying_step) (simp add: numeral_3_eq_3 numeral_2_eq_2)
    have s1: "retrying 3 login_neotel_wait ?p fn 1 = ([4, 4], Inl RetryError)"
      using e s2 w1 by (subst retrying_step) (simp add: numeral_2_eq_2)
    then show ?thesis by (simp add: login_neotel_retry_def)
  qed
  show ?thesis
    using len eq vals exhaust unfolding login_neotel_retry_def w by blast
qed

theorem login_backoff_witness:
  "(\<exists>e. five_transient_failures 1 = Inl e \<and> is_WebDriverException e)
   \<and> (\<exists>e. five_transient_failures 2 = Inl e \<and> is_WebDriverException e)
   \<and> (\<exists>e. five_transient_failures 3 = Inl e \<and> is_WebDriverException e)
   \<and> login_neotel_retry five_transient_failures = ([4, 4], Inl RetryError)"
proof -
  have h: "\<forall>n \<in> {1, 2, 3}. \<exists>e. five_transient_failures n = Inl e \<and> is_WebDriverException e"
    by (simp add: five_transient_failures_def)
  with login_backoff[of five_transient_failures]
  have "login_neotel_retry five_transient_failures = ([4, 4], Inl RetryError)" by blast
  with h show ?thesis by simp
qed

section \<open>Download detection\<close>

lemma stat_st_size_listed:
  "f \<in> set (obtener_archivos_en_directorio d) \<Longrightarrow> \<exists>n. stat_st_size d f = Some n"
proof (cases d)
  case NoExiste
  assume "f \<in> set (obtener_archivos_en_directorio d)"
  with NoExiste show ?thesis by simp
next
  case (Directorio es)
  assume "f \<in> set (obtener_archivos_en_directorio d)"
  with Directorio obtain e where "e \<in> set es" "nombre e = f" by auto
  then have "find (\<lambda>e. nombre e = f) es \<noteq> None" by (auto simp: find_None_iff)
  with Directorio show ?thesis by auto
qed

lemma comprobar_descarga_Some:
  assumes "comprobar_descarga d prev = Some r"
  shows "\<exists>f n. r = Inr f \<and> f \<in> set (obtener_archivos_en_directorio d) \<and> f \<notin> prev
           \<and> \<not> es_parcial f \<and> stat_st_size d f = Some n \<and> 0 < n"
proof -
  let ?cs = "archivos_completos (archivos_nuevos (obtener_archivos_en_directorio d) prev)"
  from assms obtain f rest where cs: "?cs = f # rest"
    by (cases ?cs) (auto simp: comprobar_descarga_def)
  then have "f \<in> set ?cs" by simp
  then have mem: "f \<in> set (obtener_archivos_en_directorio d)" "f \<notin> prev" "\<not> es_parcial f"
    by (auto simp: archivos_completos_def archivos_nuevos_def es_parcial_def)
  from stat_st_size_listed[OF mem(1)] obtain n where n: "stat_st_size d f = Some n" by blast
  from assms cs n have "r = Inr f \<and> 0 < n"
    by (auto simp: comprobar_descarga_def split: if_splits)
  with mem n show ?thesis by blast
qed

lemma intervalo_siguiente:
  "1 \<le> iv \<Longrightarrow> 1 \<le> min (iv * (3 / 2)) DOWNLOAD_CHECK_INTERVAL_MAX"
  by (simp add: DOWNLOAD_CHECK_INTERVAL_MAX_def)

lemma esperar_bucle_correct:
  assumes "1 \<le> iv"
  shows "\<exists>sl r. esperar_bucle d prev timeout t iv k dormido = Some (dormido @ sl, r)
           \<and> sl = intervalos iv (length sl)
           \<and> (\<forall>j < length sl. comprobar_descarga (d (k + j)) prev = None)
           \<and> (case r of
                 Inr f \<Rightarrow> t + sum_list sl < timeout
                          \<and> comprobar_descarga (d (k + length sl)) prev = Some (Inr f)
               | Inl e \<Rightarrow> e = TimeoutError \<and> timeout \<le> t + sum_list sl)"
  using assms
proof (induction "nat \<lceil>timeout - t\<rceil>" arbitrary: t iv k dormido rule: less_induct)
  case less
  show ?case
  proof (cases "t < timeout")
    case False
    then have "esperar_bucle d prev timeout t iv k dormido = Some (dormido @ [], Inl TimeoutError)"
      by (subst esperar_bucle.simps) simp
    with False show ?thesis by (intro exI[of _ "[]"] exI[of _ "Inl TimeoutError"]) simp
  next
    case True
    show ?thesis
    proof (cases "comprobar_descarga (d k) prev")
      case (Some r)
      from comprobar_descarga_Some[OF Some] obtain f where r: "r = Inr f" by blast
      from True Some have "esperar_bucle d prev timeout t iv k dormido = Some (dormido @ [], r)"
        by (subst esperar_bucle.simps) simp
      with True Some r show ?thesis by (intro exI[of _ "[]"] exI[of _ r]) simp
    next
      case None
      let ?iv' = "min (iv * (3 / 2)) DOWNLOAD_CHECK_INTERVAL_MAX"
      have step: "esperar_bucle d prev timeout t iv k dormido =
                  esperar_bucle d prev timeout (t + iv) ?iv' (Suc k) (dormido @ [iv])"
        using True None by (subst esperar_bucle.simps) simp
      have "\<lceil>timeout - (t + iv)\<rceil> \<le> \<lceil>timeout - t - 1\<rceil>"
        using less.prems by (intro ceiling_mono) simp
      moreover have "0 < \<lceil>timeout - t\<rceil>" using True by simp
      ultimately have dec: "nat \<lceil>timeout - (t + iv)\<rceil> < nat \<lceil>timeout - t\<rceil>" by simp
      from less.hyps[OF dec intervalo_siguiente[OF less.prems], of "Suc k" "dormido @ [iv]"]
      obtain sl r where
        res: "esperar_bucle d prev timeout (t + iv) ?iv' (Suc k) (dormido @ [iv])
               = Some ((dormido @ [iv]) @ sl, r)"
        and ivs: "sl = intervalos ?iv' (length sl)"
        and nones: "\<forall>j < length sl. comprobar_descarga (d (Suc k + j)) prev = None"
        and fin: "(case r of
                 Inr f \<Rightarrow> t + iv + sum_list sl < timeout
                          \<and> comprobar_descarga (d (Suc k + length sl)) prev = Some (Inr f)
               | Inl e \<Rightarrow> e = TimeoutError \<and> timeout \<le> t + iv + sum_list sl)"
        by blast
      have a: "esperar_bucle d prev timeout t iv k dormido = Some (dormido @ (iv # sl), r)"
        using step res by simp
      have b: "iv # sl = intervalos iv (length (iv # sl))" using ivs by simp
      have c: "\<forall>j < length (iv # sl). comprobar_descarga (d (k + j)) prev = None"
      proof (intro allI impI)
        fix j assume j: "j < length (iv # sl)"
        show "comprobar_descarga (d (k + j)) prev = None"
        proof (cases j)
          case 0
          with None show ?thesis by simp
        next
          case (Suc j')
          with j nones show ?thesis by simp
        qed
      qed
      have e: "(case r of
                 Inr f \<Rightarrow> t + sum_list (iv # sl) < timeout
                          \<and> comprobar_descarga (d (k + length (iv # sl))) prev = Some (Inr f)
               | Inl e \<Rightarrow> e = TimeoutError \<and> timeout \<le> t + sum_list (iv # sl))"
        using fin by (simp add: add.assoc split: sum.splits)
      from a b c e show ?thesis by blast
    qed
  qed
qed

lemma intervalos_nth:
  "0 < iv \<Longrightarrow> iv \<le> DOWNLOAD_CHECK_INTERVAL_MAX \<Longrightarrow> i < n
   \<Longrightarrow> intervalos iv n ! i = min (iv * (3 / 2) ^ i) DOWNLOAD_CHECK_INTERVAL_MAX"
proof (induction n arbitrary: iv i)
  case 0
  then show ?case by simp
next
  case (Suc n)
  show ?case
  proof (cases i)
    case 0
    then show ?thesis using Suc.prems by simp
  next
    case (Suc i')
    let ?M = DOWNLOAD_CHECK_INTERVAL_MAX
    have pos: "0 < min (iv * (3 / 2)) ?M" using Suc.prems by (simp add: DOWNLOAD_CHECK_INTERVAL_MAX_def)
    have ge1: "(1::rat) \<le> (3 / 2) ^ i'" by (rule one_le_power) simp
    have "intervalos iv (Suc n) ! i = intervalos (min (iv * (3 / 2)) ?M) n ! i'"
      using Suc by simp
    also have "\<dots> = min (min (iv * (3 / 2)) ?M * (3 / 2) ^ i') ?M"
      using Suc.IH[OF pos _, of i'] Suc.prems Suc by simp
    also have "\<dots> = min (iv * (3 / 2) ^ i) ?M"
    proof (cases "iv * (3 / 2) \<le> ?M")
      case True
      then show ?thesis using Suc by (simp add: min_def mult.assoc)
    next
      case False
      then have big: "?M < iv * (3 / 2)" by simp
      have "?M * 1 \<le> ?M * (3 / 2) ^ i'"
        using ge1 by (intro mult_left_mono) (simp_all add: DOWNLOAD_CHECK_INTERVAL_MAX_def)
      moreover have "iv * (3 / 2) * 1 \<le> iv * (3 / 2) * (3 / 2) ^ i'"
        using ge1 Suc.prems(1) by (intro mult_left_mono) simp_all
      ultimately show ?thesis using big Suc by (simp add: min_def mult.assoc)
    qed
    finally show ?thesis .
  qed
qed

lemmas watcher_eval =
  esperar_descarga_completa_def esperar_bucle.simps comprobar_descarga_def
  archivos_completos_def archivos_nuevos_def endswith_def
  DOWNLOAD_CHECK_INTERVAL_MIN_def DOWNLOAD_CHECK_INTERVAL_MAX_def DOWNLOAD_TIMEOUT_def
  dir_en_curso_def dir_terminada_def traza_ejemplo_def

text \<open>
  C6: the watcher always returns or raises. When it returns a name, the elapsed time is
  below the timeout and the name is, in the listing of that pass, a file outside the
  baseline, without a partial-download suffix and of size greater than zero. Otherwise it
  raises \<^verbatim>\<open>TimeoutError\<close>, with the timeout reached and no pass having found a
  download. The sleeps start at 1 second, grow by the factor 1.5 after each unsuccessful
  pass and are capped at 6 seconds.
\<close>

theorem esperar_descarga_completa_watcher:
  "\<exists>dormido r.
     esperar_descarga_completa download_dir archivos_previos timeout = Some (dormido, r)
     \<and> (\<forall>i < length dormido. dormido ! i = min ((3 / 2) ^ i) 6)
     \<and> (\<forall>i. Suc i < length dormido \<longrightarrow> dormido ! Suc i = min (dormido ! i * (3 / 2)) 6)
     \<and> (case r of
           Inr f \<Rightarrow>
             sum_list dormido < timeout
             \<and> f \<in> set (obtener_archivos_en_directorio (download_dir (length dormido)))
             \<and> f \<notin> archivos_previos
             \<and> \<not> es_parcial f
             \<and> (\<exists>n. stat_st_size (download_dir (length dormido)) f = Some n \<and> 0 < n)
         | Inl e \<Rightarrow>
             e = TimeoutError \<and> timeout \<le> sum_list dormido
             \<and> (\<forall>j < length dormido.
                   comprobar_descarga (download_dir j) archivos_previos = None))"
proof -
  have "\<exists>sl r. esperar_descarga_completa download_dir archivos_previos timeout = Some (sl, r)
           \<and> sl = intervalos 1 (length sl)
           \<and> (\<forall>j < length sl. comprobar_descarga (download_dir j) archivos_previos = None)
           \<and> (case r of
                 Inr f \<Rightarrow> sum_list sl < timeout
                          \<and> comprobar_descarga (download_dir (length sl)) archivos_previos
                              = Some (Inr f)
               | Inl e \<Rightarrow> e = TimeoutError \<and> timeout \<le> sum_list sl)"
    using esperar_bucle_correct[of 1 download_dir archivos_previos timeout 0 0 "[]"]
    by (simp add: esperar_descarga_completa_def DOWNLOAD_CHECK_INTERVAL_MIN_def
        cong: sum.case_cong)
  then obtain sl r where
    res: "esperar_descarga_completa download_dir archivos_previos timeout = Some (sl, r)"
    and ivs: "sl = intervalos 1 (length sl)"
    and nones: "\<forall>j < length sl. comprobar_descarga (download_dir j) archivos_previos = None"
    and fin: "(case r of
                 Inr f \<Rightarrow> sum_list sl < timeout
                          \<and> comprobar_descarga (download_dir (length sl)) archivos_previos
                              = Some (Inr f)
               | Inl e \<Rightarrow> e = TimeoutError \<and> timeout \<le> sum_list sl)"
    by blast
  have nth: "sl ! i = min ((3 / 2) ^ i) 6" if "i < length sl" for i
    using intervalos_nth[of 1 i "length sl"] that ivs
    by (simp add: DOWNLOAD_CHECK_INTERVAL_MAX_def)
  have growth: "sl ! Suc i = min (sl ! i * (3 / 2)) 6" if "Suc i < length sl" for i
  proof -
    have ge1: "(1::rat) \<le> (3 / 2) ^ i" by (rule one_le_power) simp
    have "sl ! Suc i = min ((3 / 2) ^ i * (3 / 2)) 6" using nth[OF that] by simp
    moreover have "sl ! i = min ((3 / 2) ^ i) 6" using nth[of i] that by simp
    ultimately show ?thesis using ge1 by (simp add: min_def)
  qed
  have last: "(case r of
           Inr f \<Rightarrow>
             sum_list sl < timeout
             \<and> f \<in> set (obtener_archivos_en_directorio (download_dir (length sl)))
             \<and> f \<notin> archivos_previos
             \<and> \<not> es_parcial f
             \<and> (\<exists>n. stat_st_size (download_dir (length sl)) f = Some n \<and> 0 < n)
         | Inl e \<Rightarrow>
             e = TimeoutError \<and> timeout \<le> sum_list sl
             \<and> (\<forall>j < length sl. comprobar_descarga (download_dir j) archivos_previos = None))"
  proof (cases r)
    case (Inl e)
    with fin nones show ?thesis by simp
  next
    case (Inr f)
    with fin have c: "comprobar_descarga (download_dir (length sl)) archivos_previos
                       = Some (Inr f)" and t: "sum_list sl < timeout" by simp_all
    from comprobar_descarga_Some[OF c] t Inr show ?thesis by auto
  qed
  from res nth growth last show ?thesis by blast
qed

theorem esperar_descarga_completa_watcher_witness:
  "\<exists>dormido f.
     esperar_descarga_completa traza_ejemplo {''a.txt''} 20 = Some (dormido, Inr f)
     \<and> dormido = [1, 3 / 2, 9 / 4] \<and> f = ''report23.csv''
     \<and> (\<forall>i < length dormido. dormido ! i = min ((3 / 2) ^ i) 6)
     \<and> (\<forall>i. Suc i < length dormido \<longrightarrow> dormido ! Suc i = min (dormido ! i * (3 / 2)) 6)
     \<and> sum_list dormido < 20
     \<and> f \<in> set (obtener_archivos_en_directorio (traza_ejemplo (length dormido)))
     \<and> f \<notin> {''a.txt''}
     \<and> \<not> es_parcial f
     \<and> (\<exists>n. stat_st_size (traza_ejemplo (length dormido)) f = Some n \<and> 0 < n)"
proof -
  have ev: "esperar_descarga_completa traza_ejemplo {''a.txt''} 20
              = Some ([1, 3 / 2, 9 / 4], Inr ''report23.csv'')"
    by (simp add: watcher_eval)
  from esperar_descarga_completa_watcher[of traza_ejemplo "{''a.txt''}" 20]
  obtain dormido r where
    res: "esperar_descarga_completa traza_ejemplo {''a.txt''} 20 = Some (dormido, r)"
    and nth: "\<forall>i < length dormido. dormido ! i = min ((3 / 2) ^ i) 6"
    and growth: "\<forall>i. Suc i < length dormido \<longrightarrow> dormido ! Suc i = min (dormido ! i * (3 / 2)) 6"
    and fin: "(case r of
           Inr f \<Rightarrow>
             sum_list dormido < 20
             \<and> f \<in> set (obtener_archivos_en_directorio (traza_ejemplo (length dormido)))
             \<and> f \<notin> {''a.txt''}
             \<and> \<not> es_parcial f
             \<and> (\<exists>n. stat_st_size (traza_ejemplo (length dormido)) f = Some n \<and> 0 < n)
         | Inl e \<Rightarrow>
             e = TimeoutError \<and> 20 \<le> sum_list dormido
             \<and> (\<forall>j < length dormido.
                   comprobar_descarga (traza_ejemplo j) {''a.txt''} = None))"
    by blast
  from res ev have d: "dormido = [1, 3 / 2, 9 / 4]" and r: "r = Inr ''report23.csv''"
    by simp_all
  from fin have fin': "sum_list dormido < 20
             \<and> ''report23.csv'' \<in> set (obtener_archivos_en_directorio (traza_ejemplo (length dormido)))
             \<and> ''report23.csv'' \<notin> {''a.txt''}
             \<and> \<not> es_parcial ''report23.csv''
             \<and> (\<exists>n. stat_st_size (traza_ejemplo (length dormido)) ''report23.csv'' = Some n \<and> 0 < n)"
    unfolding r by simp
  from res r d nth growth fin' show ?thesis by blast
qed

text \<open>
  C2: step 4 of \<^verbatim>\<open>descargar_reporte\<close> on a download still in progress when the timeout
  passes. The watcher skips the \<^verbatim>\<open>.crdownload\<close> file at every pass and raises
  \<^verbatim>\<open>TimeoutError\<close>; the recheck of the caller takes the first new name with no filter
  on the suffix and reports the partial file as the download.
\<close>

theorem descargar_paso4_reports_partial:
  "esperar_descarga_completa (\<lambda>tick. dir_en_curso) {''a.txt''} DOWNLOAD_TIMEOUT
     = Some ([1, 3 / 2, 9 / 4, 27 / 8, 81 / 16, 6, 6], Inl TimeoutError)
   \<and> descargar_paso4 (\<lambda>tick. dir_en_curso) dir_en_curso {''a.txt''}
     = Some (Inr ''report23.csv.crdownload'')
   \<and> es_parcial ''report23.csv.crdownload''"
proof -
  have ev: "esperar_descarga_completa (\<lambda>tick. dir_en_curso) {''a.txt''} DOWNLOAD_TIMEOUT
     = Some ([1, 3 / 2, 9 / 4, 27 / 8, 81 / 16, 6, 6], Inl TimeoutError)"
    by (simp add: watcher_eval)
  have "descargar_paso4 (\<lambda>tick. dir_en_curso) dir_en_curso {''a.txt''}
     = Some (Inr ''report23.csv.crdownload'')"
    unfolding descargar_paso4_def ev by (simp add: archivos_nuevos_def dir_en_curso_def)
  moreover have "es_parcial ''report23.csv.crdownload''"
    by (simp add: es_parcial_def endswith_def)
  ultimately show ?thesis using ev by simp
qed

section \<open>Exit codes\<close>

lemma main_exit_status:
  "exit_status (snd (main w)) =
     (case ejecutar_extraccion_r w of
        Inl e \<Rightarrow> codigo_de_main e
      | Inr archivos \<Rightarrow>
          if archivos = [] then 1
          else
            (case ejecutar_transformacion_r w of
               Inl e \<Rightarrow> codigo_de_main e
             | Inr datos \<Rightarrow>
                 if \<not> hay_datos datos then 1
                 else (case ejecutar_carga_r w of Inl e \<Rightarrow> codigo_de_main e | Inr u \<Rightarrow> 0)))"
  by (simp add: main_def main_try_def codigo_de_main_def split: sum.splits)

lemma script_exit_status_configured:
  "cargar_configuracion env = Inr cfg \<Longrightarrow> snd (script env w) = exit_status (snd (main w))"
  by (simp add: script_def split: prod.splits)

text \<open>
  C3: with the required variable \<^verbatim>\<open>NEOTEL_PASS\<close> absent, the script raises
  \<^verbatim>\<open>EnvironmentError\<close> while loading, before any phase starts (so before any browser
  activity), but outside the \<^verbatim>\<open>try\<close> of \<^verbatim>\<open>main()\<close> whose handler would exit with code
  2: the exception is uncaught and the exit status is 1, whatever the phases would do.
\<close>

theorem script_missing_secret_exit_status:
  "cargar_configuracion entorno_sin_clave = Inl OSError
   \<and> is_EnvironmentError OSError
   \<and> script entorno_sin_clave w = ([], 1)"
proof -
  have "cargar_configuracion entorno_sin_clave = Inl OSError"
    by (simp add: cargar_configuracion_def bind_exc_def obtener_variable_entorno_def
        entorno_sin_clave_def)
  then show ?thesis by (simp add: script_def)
qed

section \<open>Business-date computation\<close>

lemma div_paso:
  fixes z k :: int
  assumes k: "1 < k"
  shows "z div k = (z - 1) div k + (if z mod k = 0 then 1 else 0)"
proof (cases "z mod k = 0")
  case True
  have "z = k * (z div k) + z mod k" by simp
  with True have "z - 1 = k * (z div k - 1) + (k - 1)" by (simp add: algebra_simps)
  moreover have "0 \<le> k - 1" "k - 1 < k" using k by simp_all
  ultimately have "(z - 1) div k = z div k - 1" by (rule int_div_pos_eq)
  with True show ?thesis by simp
next
  case False
  have r: "0 \<le> z mod k" "z mod k < k" using k by simp_all
  have "z = k * (z div k) + z mod k" by simp
  then have "z - 1 = k * (z div k) + (z mod k - 1)" by simp
  moreover have "0 \<le> z mod k - 1" "z mod k - 1 < k" using r False by simp_all
  ultimately have "(z - 1) div k = z div k" by (rule int_div_pos_eq)
  with False show ?thesis by simp
qed

lemma is_leap_cuenta:
  "(if (z::int) mod 4 = 0 then 1 else 0) - (if z mod 100 = 0 then 1 else 0)
     + (if z mod 400 = 0 then 1 else 0) = (if is_leap z then (1::int) else 0)"
proof (cases "z mod 400 = 0")
  case True
  then have c: "z mod 100 = 0" using mod_mod_cancel[of 100 400 z] by simp
  then have "z mod 4 = 0" using mod_mod_cancel[of 4 100 z] by simp
  with True c show ?thesis by (simp add: is_leap_def)
next
  case False
  show ?thesis
  proof (cases "z mod 100 = 0")
    case True
    then have "z mod 4 = 0" using mod_mod_cancel[of 4 100 z] by simp
    with True False show ?thesis by (simp add: is_leap_def)
  next
    case c: False
    with False show ?thesis by (simp add: is_leap_def)
  qed
qed

lemma days_before_year_Suc:
  "days_before_year (y + 1) = days_before_year y + 365 + (if is_leap y then 1 else 0)"
proof -
  define A :: int where "A = (if y mod 4 = 0 then 1 else 0)"
  define B :: int where "B = (if y mod 100 = 0 then 1 else 0)"
  define C :: int where "C = (if y mod 400 = 0 then 1 else 0)"
  have d4: "y div 4 = (y - 1) div 4 + A" unfolding A_def by (rule div_paso) simp
  have d100: "y div 100 = (y - 1) div 100 + B" unfolding B_def by (rule div_paso) simp
  have d400: "y div 400 = (y - 1) div 400 + C" unfolding C_def by (rule div_paso) simp
  have e1: "days_before_year (y + 1) = y * 365 + y div 4 - y div 100 + y div 400"
    by (simp add: days_before_year_def)
  have e2: "days_before_year y
              = (y - 1) * 365 + (y - 1) div 4 - (y - 1) div 100 + (y - 1) div 400"
    by (simp add: days_before_year_def)
  have l: "A - B + C = (if is_leap y then 1 else 0)"
    unfolding A_def B_def C_def by (rule is_leap_cuenta)
  have g: "y * 365 + (p + A) - (q + B) + (r + C)
             = (y - 1) * 365 + p - q + r + 365 + (A - B + C)" for p q r :: int
    by (simp add: algebra_simps)
  have "days_before_year (y + 1) = days_before_year y + 365 + (A - B + C)"
    unfolding e1 e2 d4 d100 d400 by (rule g)
  then show ?thesis unfolding l .
qed

lemma month_cases:
  "1 \<le> m \<Longrightarrow> m \<le> 12 \<Longrightarrow>
   m = 1 \<or> m = 2 \<or> m = 3 \<or> m = 4 \<or> m = 5 \<or> m = 6 \<or> m = 7 \<or> m = 8 \<or> m = 9
   \<or> m = 10 \<or> m = 11 \<or> m = (12::int)"
  by arith

lemma days_in_month_pos:
  "1 \<le> m \<Longrightarrow> m \<le> 12 \<Longrightarrow> 28 \<le> days_in_month y m \<and> days_in_month y m \<le> 31"
  using month_cases[of m]
  by (auto simp: days_in_month_def days_in_month_tabla_def)

lemma days_before_month_step:
  "2 \<le> m \<Longrightarrow> m \<le> 12 \<Longrightarrow>
   days_before_month y m = days_before_month y (m - 1) + days_in_month y (m - 1)"
  using month_cases[of m]
  by (auto simp: days_before_month_def days_in_month_def days_in_month_tabla_def)

lemma digito_valor: "0 \<le> d \<Longrightarrow> d \<le> 9 \<Longrightarrow> of_char (digito d) - 48 = (d::int)"
  by (simp add: digito_def)

lemma digito_cifra:
  assumes "0 \<le> d" "d \<le> 9"
  shows "digito d \<in> set ''0123456789''"
proof -
  from assms have "d = 0 \<or> d = 1 \<or> d = 2 \<or> d = 3 \<or> d = 4 \<or> d = 5 \<or> d = 6 \<or> d = 7
                    \<or> d = 8 \<or> d = 9"
    by arith
  then show ?thesis
    by (elim disjE) (simp_all add: digito_def char_of_def)
qed

lemma dos_digitos_valor:
  assumes "0 \<le> n" "n \<le> 99"
  shows "valor_decimal_desde acc (dos_digitos n) = Some (100 * acc + n)"
proof -
  from assms have q: "0 \<le> n div 10" "n div 10 \<le> 9" by simp_all
  then have m: "n div 10 mod 10 = n div 10" by simp
  have r: "0 \<le> n mod 10" "n mod 10 \<le> 9" by simp_all
  have "valor_decimal_desde acc (dos_digitos n)
          = Some (10 * (10 * acc + n div 10) + n mod 10)"
    using digito_cifra[OF q] digito_cifra[OF r]
    by (simp add: dos_digitos_def m digito_valor[OF q] digito_valor[OF r])
  also have "10 * (10 * acc + n div 10) + n mod 10 = 100 * acc + (10 * (n div 10) + n mod 10)"
    by (simp add: algebra_simps)
  finally show ?thesis by simp
qed

lemma valor_decimal_desde_append:
  "valor_decimal_desde acc (xs @ ys)
     = (case valor_decimal_desde acc xs of None \<Rightarrow> None | Some a \<Rightarrow> valor_decimal_desde a ys)"
  by (induction xs arbitrary: acc) simp_all

lemma cuatro_digitos_valor:
  assumes "0 \<le> k" "k \<le> 9999"
  shows "valor_decimal_desde 0 (cuatro_digitos k) = Some k"
proof -
  from assms have q: "0 \<le> k div 100" "k div 100 \<le> 99" by simp_all
  have r: "0 \<le> k mod 100" "k mod 100 \<le> 99" by simp_all
  have "valor_decimal_desde 0 (cuatro_digitos k)
          = Some (100 * (0 + k div 100) + k mod 100)"
    unfolding cuatro_digitos_def valor_decimal_desde_append
    by (simp add: dos_digitos_valor[OF q] dos_digitos_valor[OF r])
  then show ?thesis by simp
qed

lemma valor_decimal_dos: "0 \<le> n \<Longrightarrow> n \<le> 99 \<Longrightarrow> valor_decimal (dos_digitos n) = Some n"
  using dos_digitos_valor[of n 0] by (simp add: valor_decimal_def dos_digitos_def)

lemma valor_decimal_cuatro:
  "0 \<le> k \<Longrightarrow> k \<le> 9999 \<Longrightarrow> valor_decimal (cuatro_digitos k) = Some k"
  using cuatro_digitos_valor[of k]
  by (simp add: valor_decimal_def cuatro_digitos_def dos_digitos_def)

lemmas digitos_valor = valor_decimal_dos valor_decimal_cuatro

lemma restar_un_dia_correct:
  assumes v: "fecha_valida D" and y: "1000 < year D"
  shows "\<exists>A. restar_un_dia D = Inr A \<and> fecha_valida A \<and> 1000 \<le> year A
             \<and> toordinal A = toordinal D - 1
             \<and> hour A = hour D \<and> minute A = minute D \<and> second A = second D
             \<and> microsecond A = microsecond D"
proof -
  from v have r: "1 \<le> year D" "year D \<le> 9999" "1 \<le> month D" "month D \<le> 12"
    "1 \<le> day D" "day D \<le> days_in_month (year D) (month D)"
    by (simp_all add: fecha_valida_def)
  consider (same) "1 < day D" | (mes) "day D = 1" "1 < month D" | (anno) "day D = 1" "month D = 1"
    using r by arith
  then show ?thesis
  proof cases
    case same
    let ?A = "D\<lparr>year := year D, month := month D, day := day D - 1\<rparr>"
    have "restar_un_dia D = Inr ?A"
      using same r by (simp add: restar_un_dia_def normalize_y_m_d_def MINYEAR_def MAXYEAR_def)
    moreover have "fecha_valida ?A" using same r by (simp add: fecha_valida_def)
    moreover have "toordinal ?A = toordinal D - 1" by (simp add: toordinal_def)
    ultimately show ?thesis using y by (intro exI[of _ ?A]) simp
  next
    case mes
    let ?A = "D\<lparr>year := year D, month := month D - 1,
                day := days_in_month (year D) (month D - 1)\<rparr>"
    have "restar_un_dia D = Inr ?A"
      using mes r by (simp add: restar_un_dia_def normalize_y_m_d_def MINYEAR_def MAXYEAR_def)
    moreover have "fecha_valida ?A"
      using mes r days_in_month_pos[of "month D - 1" "year D"] by (simp add: fecha_valida_def)
    moreover have "toordinal ?A = toordinal D - 1"
      using mes r days_before_month_step[of "month D" "year D"] by (simp add: toordinal_def)
    ultimately show ?thesis using y by (intro exI[of _ ?A]) simp
  next
    case anno
    let ?A = "D\<lparr>year := year D - 1, month := 12, day := 31\<rparr>"
    have "restar_un_dia D = Inr ?A"
      using anno r y
      by (simp add: restar_un_dia_def normalize_y_m_d_def MINYEAR_def MAXYEAR_def)
    moreover have "fecha_valida ?A"
      using anno r y by (simp add: fecha_valida_def days_in_month_def days_in_month_tabla_def)
    moreover have "toordinal ?A = toordinal D - 1"
      using anno days_before_year_Suc[of "year D - 1"]
      by (simp add: toordinal_def days_before_month_def)
    ultimately show ?thesis using y by (intro exI[of _ ?A]) simp
  qed
qed

text \<open>
  C7: for a current date \<open>D\<close> (of a year after 1000), the computed business date is the
  date \<open>A\<close> one calendar day before \<open>D\<close>, written as two digits of the day, a slash,
  two digits of the month, a slash and four digits of the year (each group is made of
  decimal digits only and denotes the day, the month and the year of \<open>A\<close>); on the 1st of March 2024
  it is 29/02/2024 and on the 1st of January 2025 it is 31/12/2024.
\<close>

theorem calcular_fecha_ayer_previous_day:
  "(fecha_valida D \<and> 1000 < year D \<longrightarrow>
      (\<exists>A s. restar_un_dia D = Inr A \<and> calcular_fecha_ayer D = Inr s
         \<and> fecha_valida A \<and> toordinal A = toordinal D - 1
         \<and> length s = 10 \<and> s ! 2 = CHR ''/'' \<and> s ! 5 = CHR ''/''
         \<and> valor_decimal (take 2 s) = Some (day A)
         \<and> valor_decimal (take 2 (drop 3 s)) = Some (month A)
         \<and> valor_decimal (drop 6 s) = Some (year A)))
   \<and> calcular_fecha_ayer (el_dia 1 3 2024) = Inr ''29/02/2024''
   \<and> calcular_fecha_ayer (el_dia 1 1 2025) = Inr ''31/12/2024''"
proof -
  have gen: "\<exists>A s. restar_un_dia D = Inr A \<and> calcular_fecha_ayer D = Inr s
         \<and> fecha_valida A \<and> toordinal A = toordinal D - 1
         \<and> length s = 10 \<and> s ! 2 = CHR ''/'' \<and> s ! 5 = CHR ''/''
         \<and> valor_decimal (take 2 s) = Some (day A)
         \<and> valor_decimal (take 2 (drop 3 s)) = Some (month A)
         \<and> valor_decimal (drop 6 s) = Some (year A)"
    if h: "fecha_valida D" "1000 < year D"
  proof -
    from restar_un_dia_correct[OF h] obtain A where
      A: "restar_un_dia D = Inr A" "fecha_valida A" "toordinal A = toordinal D - 1" by blast
    let ?s = "strftime_d_m_Y A"
    from A(2) have r: "1 \<le> year A" "year A \<le> 9999" "1 \<le> month A" "month A \<le> 12"
      "1 \<le> day A" "day A \<le> days_in_month (year A) (month A)"
      by (simp_all add: fecha_valida_def)
    from days_in_month_pos[OF r(3,4), of "year A"] r have d99: "day A \<le> 99" by simp
    have s: "calcular_fecha_ayer D = Inr ?s" using A(1) by (simp add: calcular_fecha_ayer_def)
    have len: "length ?s = 10" "?s ! 2 = CHR ''/''" "?s ! 5 = CHR ''/''"
      by (simp_all add: strftime_d_m_Y_def dos_digitos_def cuatro_digitos_def)
    have t1: "take 2 ?s = dos_digitos (day A)"
      and t2: "take 2 (drop 3 ?s) = dos_digitos (month A)"
      and t3: "drop 6 ?s = cuatro_digitos (year A)"
      by (simp_all add: strftime_d_m_Y_def dos_digitos_def cuatro_digitos_def)
    have "valor_decimal (take 2 ?s) = Some (day A)" unfolding t1 using r d99 by (simp add: digitos_valor)
    moreover have "valor_decimal (take 2 (drop 3 ?s)) = Some (month A)"
      unfolding t2 using r by (simp add: digitos_valor)
    moreover have "valor_decimal (drop 6 ?s) = Some (year A)"
      unfolding t3 using r by (simp add: digitos_valor)
    ultimately show ?thesis using A s len by blast
  qed
  have e1: "calcular_fecha_ayer (el_dia 1 3 2024) = Inr ''29/02/2024''"
    by (simp add: calcular_fecha_ayer_def restar_un_dia_def normalize_y_m_d_def el_dia_def
        days_in_month_def is_leap_def MINYEAR_def MAXYEAR_def strftime_d_m_Y_def
        dos_digitos_def cuatro_digitos_def digito_def char_of_def)
  have e2: "calcular_fecha_ayer (el_dia 1 1 2025) = Inr ''31/12/2024''"
    by (simp add: calcular_fecha_ayer_def restar_un_dia_def normalize_y_m_d_def el_dia_def
        days_in_month_def is_leap_def MINYEAR_def MAXYEAR_def strftime_d_m_Y_def
        dos_digitos_def cuatro_digitos_def digito_def char_of_def)
  from gen e1 e2 show ?thesis by blast
qed

theorem calcular_fecha_ayer_previous_day_witness:
  "fecha_valida (el_dia 1 3 2024) \<and> 1000 < year (el_dia 1 3 2024)
   \<and> (\<exists>A. restar_un_dia (el_dia 1 3 2024) = Inr A
         \<and> calcular_fecha_ayer (el_dia 1 3 2024) = Inr ''29/02/2024''
         \<and> day A = 29 \<and> month A = 2 \<and> year A = 2024
         \<and> toordinal A = toordinal (el_dia 1 3 2024) - 1)"
proof -
  have h: "fecha_valida (el_dia 1 3 2024) \<and> 1000 < year (el_dia 1 3 2024)"
    by (simp add: fecha_valida_def el_dia_def days_in_month_def days_in_month_tabla_def)
  with calcular_fecha_ayer_previous_day[of "el_dia 1 3 2024"] obtain A s where
    A: "restar_un_dia (el_dia 1 3 2024) = Inr A" "calcular_fecha_ayer (el_dia 1 3 2024) = Inr s"
       "toordinal A = toordinal (el_dia 1 3 2024) - 1"
    by blast
  have ev: "restar_un_dia (el_dia 1 3 2024)
              = Inr ((el_dia 1 3 2024)\<lparr>year := 2024, month := 2, day := 29\<rparr>)"
    by (simp add: restar_un_dia_def normalize_y_m_d_def el_dia_def days_in_month_def
        is_leap_def MINYEAR_def MAXYEAR_def)
  from A(1) ev have "day A = 29 \<and> month A = 2 \<and> year A = 2024" by auto
  moreover from calcular_fecha_ayer_previous_day[of "el_dia 1 3 2024"]
  have "calcular_fecha_ayer (el_dia 1 3 2024) = Inr ''29/02/2024''" by blast
  ultimately show ?thesis using h A by blast
qed

section \<open>Report selection\<close>

lemma seleccionar_fila_reporte_fallback:
  "BusquedaDom \<in> set (fst (seleccionar_fila_reporte w))
     \<longleftrightarrow> (\<exists>r. js_resultado w = Inr r \<and> r \<noteq> ''OK'' \<and> r \<noteq> ''GRID_NOT_FOUND'')"
  by (cases "js_resultado w")
     (auto simp: seleccionar_fila_reporte_def split: sum.splits)

lemma seleccionar_fila_reporte_False:
  "snd (seleccionar_fila_reporte w) = Inr False
     \<longleftrightarrow> (\<exists>e. js_resultado w = Inl e \<and> is_Exception e)
         \<or> js_resultado w = Inr ''GRID_NOT_FOUND''
         \<or> ((\<exists>r. js_resultado w = Inr r \<and> r \<noteq> ''OK'' \<and> r \<noteq> ''GRID_NOT_FOUND'')
              \<and> ((\<exists>e. dom_fila w = Inl e \<and> is_Exception e)
                   \<or> (dom_fila w = Inr () \<and> (\<exists>e. dom_click w = Inl e \<and> is_Exception e))))"
proof (cases "js_resultado w")
  case (Inl e)
  then show ?thesis
    by (simp add: seleccionar_fila_reporte_def except_Exception_False_def)
next
  case js: (Inr r)
  show ?thesis
  proof (cases "r = ''OK'' \<or> r = ''GRID_NOT_FOUND''")
    case True
    with js show ?thesis by (auto simp: seleccionar_fila_reporte_def)
  next
    case False
    then have r: "r \<noteq> ''OK''" "r \<noteq> ''GRID_NOT_FOUND''" by simp_all
    show ?thesis
    proof (cases "dom_fila w")
      case (Inl e)
      with js r show ?thesis
        by (simp add: seleccionar_fila_reporte_def except_Exception_False_def)
    next
      case fila: (Inr u)
      show ?thesis
      proof (cases "dom_click w")
        case (Inl e)
        with js r fila show ?thesis
          by (simp add: seleccionar_fila_reporte_def except_Exception_False_def)
      next
        case (Inr v)
        with js r fila show ?thesis by (simp add: seleccionar_fila_reporte_def)
      qed
    qed
  qed
qed

text \<open>
  C9, as stated: the selector returns false only if both strategies fail. When the call
  of the grid API raises, on a page where the DOM fallback would find and click the row,
  the selector returns false without attempting the fallback, and the grid API has not
  reported grid-unavailable.
\<close>

theorem seleccionar_fila_reporte_counterexample:
  "js_resultado sel_grid_excepcion = Inl WebDriverException
   \<and> dom_fila sel_grid_excepcion = Inr () \<and> dom_click sel_grid_excepcion = Inr ()
   \<and> seleccionar_fila_reporte sel_grid_excepcion = ([GridApi], Inr False)"
  by (simp add: sel_grid_excepcion_def seleccionar_fila_reporte_def except_Exception_False_def)

text \<open>
  C9, amended: a found-and-selected answer of the grid API gives true with no fallback;
  a grid-unavailable answer gives false at once, with no fallback; on id-not-found the
  DOM fallback is attempted and, when it finds and clicks the row, the result is true.
  The fallback is attempted exactly when the grid call returns an answer other than
  found-and-selected and grid-unavailable. The selector returns false exactly in these
  cases: the grid call raises, or it answers grid-unavailable (both with no fallback), or
  it returns another answer than found-and-selected and the fallback raises, while
  waiting for the row or while clicking it.
\<close>

theorem seleccionar_fila_reporte_strategies:
  "(js_resultado w = Inr ''OK'' \<longrightarrow> seleccionar_fila_reporte w = ([GridApi], Inr True))
   \<and> (js_resultado w = Inr ''GRID_NOT_FOUND'' \<longrightarrow>
        seleccionar_fila_reporte w = ([GridApi], Inr False))
   \<and> (js_resultado w = Inr ''ID_NOT_FOUND'' \<longrightarrow>
        BusquedaDom \<in> set (fst (seleccionar_fila_reporte w))
        \<and> (dom_fila w = Inr () \<and> dom_click w = Inr () \<longrightarrow>
             seleccionar_fila_reporte w = ([GridApi, BusquedaDom, ClickDom], Inr True)))
   \<and> ((\<exists>e. js_resultado w = Inl e \<and> is_Exception e) \<longrightarrow>
        seleccionar_fila_reporte w = ([GridApi], Inr False))
   \<and> (BusquedaDom \<in> set (fst (seleccionar_fila_reporte w))
        \<longleftrightarrow> (\<exists>r. js_resultado w = Inr r \<and> r \<noteq> ''OK'' \<and> r \<noteq> ''GRID_NOT_FOUND''))
   \<and> (snd (seleccionar_fila_reporte w) = Inr False
        \<longleftrightarrow> (\<exists>e. js_resultado w = Inl e \<and> is_Exception e)
            \<or> js_resultado w = Inr ''GRID_NOT_FOUND''
            \<or> ((\<exists>r. js_resultado w = Inr r \<and> r \<noteq> ''OK'' \<and> r \<noteq> ''GRID_NOT_FOUND'')
                 \<and> ((\<exists>e. dom_fila w = Inl e \<and> is_Exception e)
                      \<or> (dom_fila w = Inr ()
                           \<and> (\<exists>e. dom_click w = Inl e \<and> is_Exception e)))))"
proof -
  have 1: "js_resultado w = Inr ''OK'' \<longrightarrow> seleccionar_fila_reporte w = ([GridApi], Inr True)"
    by (simp add: seleccionar_fila_reporte_def)
  have 2: "js_resultado w = Inr ''GRID_NOT_FOUND'' \<longrightarrow>
        seleccionar_fila_reporte w = ([GridApi], Inr False)"
    by (simp add: seleccionar_fila_reporte_def)
  have 3: "js_resultado w = Inr ''ID_NOT_FOUND'' \<longrightarrow>
        BusquedaDom \<in> set (fst (seleccionar_fila_reporte w))
        \<and> (dom_fila w = Inr () \<and> dom_click w = Inr () \<longrightarrow>
             seleccionar_fila_reporte w = ([GridApi, BusquedaDom, ClickDom], Inr True))"
    by (simp add: seleccionar_fila_reporte_def split: sum.splits)
  have 4: "(\<exists>e. js_resultado w = Inl e \<and> is_Exception e) \<longrightarrow>
        seleccionar_fila_reporte w = ([GridApi], Inr False)"
    by (auto simp: seleccionar_fila_reporte_def except_Exception_False_def)
  from 1 2 3 4 seleccionar_fila_reporte_fallback[of w] seleccionar_fila_reporte_False[of w]
  show ?thesis by (intro conjI)
qed

theorem seleccionar_fila_reporte_strategies_witness:
  "js_resultado sel_ok = Inr ''OK''
   \<and> seleccionar_fila_reporte sel_ok = ([GridApi], Inr True)
   \<and> js_resultado sel_sin_grid = Inr ''GRID_NOT_FOUND''
   \<and> seleccionar_fila_reporte sel_sin_grid = ([GridApi], Inr False)
   \<and> js_resultado sel_fallback = Inr ''ID_NOT_FOUND''
   \<and> dom_fila sel_fallback = Inr () \<and> dom_click sel_fallback = Inr ()
   \<and> seleccionar_fila_reporte sel_fallback = ([GridApi, BusquedaDom, ClickDom], Inr True)
   \<and> js_resultado sel_sin_fila = Inr ''ID_NOT_FOUND''
   \<and> dom_fila sel_sin_fila = Inl TimeoutException
   \<and> snd (seleccionar_fila_reporte sel_sin_fila) = Inr False
   \<and> BusquedaDom \<in> set (fst (seleccionar_fila_reporte sel_sin_fila))
   \<and> js_resultado sel_grid_excepcion = Inl WebDriverException
   \<and> seleccionar_fila_reporte sel_grid_excepcion = ([GridApi], Inr False)"
proof -
  have a: "js_resultado sel_ok = Inr ''OK''" by (simp add: sel_ok_def)
  have b: "js_resultado sel_sin_grid = Inr ''GRID_NOT_FOUND''" by (simp add: sel_sin_grid_def)
  have c: "js_resultado sel_fallback = Inr ''ID_NOT_FOUND''"
    "dom_fila sel_fallback = Inr () \<and> dom_click sel_fallback = Inr ()"
    by (simp_all add: sel_fallback_def)
  have d: "js_resultado sel_sin_fila = Inr ''ID_NOT_FOUND''"
    "dom_fila sel_sin_fila = Inl TimeoutException"
    by (simp_all add: sel_sin_fila_def)
  have e: "js_resultado sel_grid_excepcion = Inl WebDriverException"
    by (simp add: sel_grid_excepcion_def)
  from seleccionar_fila_reporte_strategies[of sel_ok] a
  have 1: "seleccionar_fila_reporte sel_ok = ([GridApi], Inr True)" by blast
  from seleccionar_fila_reporte_strategies[of sel_sin_grid] b
  have 2: "seleccionar_fila_reporte sel_sin_grid = ([GridApi], Inr False)" by blast
  from seleccionar_fila_reporte_strategies[of sel_fallback] c
  have 3: "seleccionar_fila_reporte sel_fallback = ([GridApi, BusquedaDom, ClickDom], Inr True)"
    by blast
  have d3: "(\<exists>r. js_resultado sel_sin_fila = Inr r \<and> r \<noteq> ''OK'' \<and> r \<noteq> ''GRID_NOT_FOUND'')
            \<and> (\<exists>e. dom_fila sel_sin_fila = Inl e \<and> is_Exception e)"
    using d by simp
  from seleccionar_fila_reporte_strategies[of sel_sin_fila] d3
  have 4: "snd (seleccionar_fila_reporte sel_sin_fila) = Inr False"
    "BusquedaDom \<in> set (fst (seleccionar_fila_reporte sel_sin_fila))" by blast+
  have e5: "\<exists>x. js_resultado sel_grid_excepcion = Inl x \<and> is_Exception x" using e by simp
  from seleccionar_fila_reporte_strategies[of sel_grid_excepcion] e5
  have 5: "seleccionar_fila_reporte sel_grid_excepcion = ([GridApi], Inr False)" by blast
  from a b c d e 1 2 3 4 5 show ?thesis by simp
qed

section \<open>Context recovery: no exception, one warning\<close>

lemma cerrar_ventanas_exc:
  "excepciones_de_driver w \<Longrightarrow> snd (cerrar_ventanas w ho hs) = Inl e \<Longrightarrow> is_Exception e"
proof (induction hs)
  case Nil
  then show ?case by simp
next
  case (Cons h hs)
  show ?case
  proof (cases "h = ho")
    case True
    with Cons show ?thesis by simp
  next
    case False
    show ?thesis
    proof (cases "switch_to_window_r w h")
      case (Inl e1)
      with Cons.prems False show ?thesis by (auto simp: excepciones_de_driver_def)
    next
      case sw: (Inr u)
      show ?thesis
      proof (cases "close_r w h")
        case (Inl e1)
        with Cons.prems False sw show ?thesis by (auto simp: excepciones_de_driver_def)
      next
        case (Inr v)
        with Cons False sw show ?thesis by (auto split: prod.splits)
      qed
    qed
  qed
qed

lemma volver_contexto_exc:
  assumes "excepciones_de_driver w" "snd (volver_contexto w ho hs) = Inl e"
  shows "is_Exception e"
proof (cases "length hs > 1")
  case True
  obtain l r where c: "cerrar_ventanas w ho hs = (l, r)" by (cases "cerrar_ventanas w ho hs")
  show ?thesis
  proof (cases r)
    case (Inl e1)
    with assms True c cerrar_ventanas_exc[OF assms(1), of ho hs e1] show ?thesis
      by (simp add: volver_contexto_def)
  next
    case (Inr u)
    with assms True c show ?thesis
      by (auto simp: volver_contexto_def excepciones_de_driver_def split: sum.splits)
  qed
next
  case False
  with assms show ?thesis
    by (auto simp: volver_contexto_def excepciones_de_driver_def split: sum.splits)
qed

lemma cerrar_modal_try_exc:
  assumes "excepciones_de_driver w" "snd (cerrar_modal_try w ho) = Inl e"
  shows "is_Exception e"
proof (cases "window_handles_r w")
  case (Inl e1)
  with assms show ?thesis by (auto simp: cerrar_modal_try_def excepciones_de_driver_def)
next
  case hs: (Inr handles)
  obtain l r where v: "volver_contexto w ho handles = (l, r)"
    by (cases "volver_contexto w ho handles")
  show ?thesis
  proof (cases r)
    case (Inl e1)
    with assms hs v volver_contexto_exc[OF assms(1), of ho handles e1] show ?thesis
      by (simp add: cerrar_modal_try_def)
  next
    case (Inr u)
    with assms hs v show ?thesis
      by (auto simp: cerrar_modal_try_def excepciones_de_driver_def split: sum.splits if_splits)
  qed
qed

lemma reset_forzado_exc:
  assumes "excepciones_de_driver w" "snd (reset_forzado w) = Inl e"
  shows "is_Exception e"
  using assms
  by (auto simp: reset_forzado_def excepciones_de_driver_def split: sum.splits list.splits)

lemma cerrar_ventanas_sin_warning:
  "filter es_warning (fst (cerrar_ventanas w ho hs)) = []"
  by (induction hs) (auto split: sum.splits prod.splits)

lemma volver_contexto_sin_warning:
  "filter es_warning (fst (volver_contexto w ho hs)) = []"
proof -
  obtain l r where c: "cerrar_ventanas w ho hs = (l, r)" by (cases "cerrar_ventanas w ho hs")
  with cerrar_ventanas_sin_warning[of w ho hs] have "filter es_warning l = []" by simp
  with c show ?thesis
    by (auto simp: volver_contexto_def split: sum.splits)
qed

lemma cerrar_modal_try_sin_warning:
  "filter es_warning (fst (cerrar_modal_try w ho)) = []"
proof (cases "window_handles_r w")
  case (Inl e)
  then show ?thesis by (simp add: cerrar_modal_try_def)
next
  case (Inr hs)
  obtain l r where v: "volver_contexto w ho hs = (l, r)" by (cases "volver_contexto w ho hs")
  with volver_contexto_sin_warning[of w ho hs] have "filter es_warning l = []" by simp
  with Inr v show ?thesis
    by (auto simp: cerrar_modal_try_def split: sum.splits)
qed

lemma reset_forzado_sin_warning:
  "filter es_warning (fst (reset_forzado w)) = []"
  by (auto simp: reset_forzado_def split: sum.splits list.splits)

lemma cerrar_modal_y_volver_Inr:
  assumes d: "excepciones_de_driver w"
  shows "snd (cerrar_modal_y_volver w handle_original) = Inr ()"
proof -
  obtain l r where t: "cerrar_modal_try w handle_original = (l, r)"
    by (cases "cerrar_modal_try w handle_original")
  show ?thesis
  proof (cases r)
    case (Inr u)
    with t show ?thesis by (simp add: cerrar_modal_y_volver_def)
  next
    case (Inl e)
    with t cerrar_modal_try_exc[OF d, of handle_original e] have e: "is_Exception e" by simp
    obtain l2 r2 where f: "reset_forzado w = (l2, r2)" by (cases "reset_forzado w")
    show ?thesis
    proof (cases r2)
      case (Inr u)
      with t Inl e f show ?thesis by (simp add: cerrar_modal_y_volver_def)
    next
      case e2: (Inl e2)
      with f reset_forzado_exc[OF d, of e2] have "is_Exception e2" by simp
      with t Inl e f e2 show ?thesis by (simp add: cerrar_modal_y_volver_def)
    qed
  qed
qed

lemma cerrar_modal_y_volver_warnings:
  "filter es_warning (fst (cerrar_modal_y_volver w handle_original))
     = (case snd (cerrar_modal_try w handle_original) of
          Inl e \<Rightarrow> if is_Exception e then [LoggerWarning e] else []
        | Inr u \<Rightarrow> [])"
proof -
  obtain l r where t: "cerrar_modal_try w handle_original = (l, r)"
    by (cases "cerrar_modal_try w handle_original")
  with cerrar_modal_try_sin_warning[of w handle_original] have l: "filter es_warning l = []"
    by simp
  obtain l2 r2 where f: "reset_forzado w = (l2, r2)" by (cases "reset_forzado w")
  with reset_forzado_sin_warning[of w] have l2: "filter es_warning l2 = []" by simp
  show ?thesis
  proof (cases r)
    case (Inr u)
    with t l show ?thesis by (simp add: cerrar_modal_y_volver_def)
  next
    case (Inl e)
    with t l f l2 show ?thesis
      by (cases r2) (simp_all add: cerrar_modal_y_volver_def)
  qed
qed

text \<open>
  C8, as stated: every internal exception is swallowed and logged, also those raised
  during the forced reset. On \<open>popup_atascado\<close> closing the popup raises
  \<^verbatim>\<open>WebDriverException\<close>, which is logged, and the forced reset then raises
  \<^verbatim>\<open>IndexError\<close> (no window handle is left), which \<^verbatim>\<open>except Exception: pass\<close> drops
  with no log entry.
\<close>

theorem cerrar_modal_y_volver_counterexample:
  "reset_forzado popup_atascado = ([DefaultContent], Inl IndexError)
   \<and> cerrar_modal_y_volver popup_atascado ''main''
       = ([SwitchToWindow ''popup'', LoggerWarning WebDriverException, DefaultContent], Inr ())
   \<and> filter es_warning (fst (cerrar_modal_y_volver popup_atascado ''main''))
       = [LoggerWarning WebDriverException]"
  by (simp add: cerrar_modal_y_volver_def cerrar_modal_try_def volver_contexto_def
      reset_forzado_def popup_atascado_def)

text \<open>
  C8, amended: whatever the driver calls do, raising instances of \<^verbatim>\<open>Exception\<close> at any
  point, also during the forced reset to the root document and the first window handle,
  \<^verbatim>\<open>cerrar_modal_y_volver\<close> returns normally. An exception of the main path is logged
  as a warning before the forced reset; that is the only warning ever written: an
  exception raised during the forced reset, like the timeout of the wait for the
  overlay, is dropped with no log entry.
\<close>

theorem cerrar_modal_y_volver_never_raises:
  "(excepciones_de_driver w \<longrightarrow> snd (cerrar_modal_y_volver w handle_original) = Inr ())
   \<and> filter es_warning (fst (cerrar_modal_y_volver w handle_original))
       = (case snd (cerrar_modal_try w handle_original) of
            Inl e \<Rightarrow> if is_Exception e then [LoggerWarning e] else []
          | Inr u \<Rightarrow> [])"
  using cerrar_modal_y_volver_Inr[of w handle_original]
    cerrar_modal_y_volver_warnings[of w handle_original]
  by blast

theorem cerrar_modal_y_volver_never_raises_witness:
  "excepciones_de_driver driver_caido
   \<and> cerrar_modal_try driver_caido ''main'' = ([], Inl WebDriverException)
   \<and> reset_forzado driver_caido = ([], Inl WebDriverException)
   \<and> snd (cerrar_modal_y_volver driver_caido ''main'') = Inr ()
   \<and> filter es_warning (fst (cerrar_modal_y_volver driver_caido ''main''))
       = [LoggerWarning WebDriverException]
   \<and> excepciones_de_driver popup_atascado
   \<and> cerrar_modal_try popup_atascado ''main'' = ([SwitchToWindow ''popup''], Inl WebDriverException)
   \<and> reset_forzado popup_atascado = ([DefaultContent], Inl IndexError)
   \<and> snd (cerrar_modal_y_volver popup_atascado ''main'') = Inr ()
   \<and> filter es_warning (fst (cerrar_modal_y_volver popup_atascado ''main''))
       = [LoggerWarning WebDriverException]"
proof -
  have a: "excepciones_de_driver driver_caido"
    by (simp add: excepciones_de_driver_def driver_caido_def)
  have b: "excepciones_de_driver popup_atascado"
    by (simp add: excepciones_de_driver_def popup_atascado_def)
  have c: "cerrar_modal_try driver_caido ''main'' = ([], Inl WebDriverException)"
    "reset_forzado driver_caido = ([], Inl WebDriverException)"
    by (simp_all add: cerrar_modal_try_def reset_forzado_def driver_caido_def)
  have d: "cerrar_modal_try popup_atascado ''main''
             = ([SwitchToWindow ''popup''], Inl WebDriverException)"
    "reset_forzado popup_atascado = ([DefaultContent], Inl IndexError)"
    by (simp_all add: cerrar_modal_try_def volver_contexto_def reset_forzado_def
        popup_atascado_def)
  from cerrar_modal_y_volver_never_raises[of driver_caido "''main''"] a c
  have 1: "snd (cerrar_modal_y_volver driver_caido ''main'') = Inr ()"
    "filter es_warning (fst (cerrar_modal_y_volver driver_caido ''main''))
       = [LoggerWarning WebDriverException]"
    by simp_all
  from cerrar_modal_y_volver_never_raises[of popup_atascado "''main''"] b d
  have 2: "snd (cerrar_modal_y_volver popup_atascado ''main'') = Inr ()"
    "filter es_warning (fst (cerrar_modal_y_volver popup_atascado ''main''))
       = [LoggerWarning WebDriverException]"
    by simp_all
  from a b c d 1 2 show ?thesis by simp
qed

section \<open>Results of the parameter-modal handler\<close>

lemma click_ejecutar_modal_Some:
  "click_ejecutar_modal ss sels = Inr (Some s) \<Longrightarrow>
     s \<in> set sels \<and> intento_click (ss s) = Inr ()"
proof (induction sels)
  case Nil
  then show ?case by simp
next
  case (Cons a sels)
  show ?case
  proof (cases "intento_click (ss a)")
    case (Inr u)
    with Cons.prems show ?thesis by simp
  next
    case (Inl e)
    with Cons show ?thesis by (simp split: if_splits)
  qed
qed

lemma click_ejecutar_modal_None:
  "click_ejecutar_modal ss sels = Inr None \<Longrightarrow>
     list_all (\<lambda>s. \<exists>e. intento_click (ss s) = Inl e) sels"
proof (induction sels)
  case Nil
  then show ?case by simp
next
  case (Cons a sels)
  show ?case
  proof (cases "intento_click (ss a)")
    case (Inr u)
    with Cons.prems show ?thesis by simp
  next
    case (Inl e)
    with Cons show ?thesis by (simp split: if_splits)
  qed
qed

lemma click_ejecutar_modal_total:
  "(\<And>s. solo_Exception (intento_click (ss s))) \<Longrightarrow>
     \<exists>r. click_ejecutar_modal ss sels = Inr r"
proof (induction sels)
  case Nil
  then show ?case by simp
next
  case (Cons a sels)
  show ?case
  proof (cases "intento_click (ss a)")
    case (Inr u)
    then show ?thesis by simp
  next
    case (Inl e)
    with Cons.prems[of a] have "is_Exception e" by (simp add: solo_Exception_def)
    with Inl Cons show ?thesis by simp
  qed
qed

lemma cargar_ultimos_parametros_total:
  "(\<And>i. solo_Exception (intento_cargar (ps i))) \<Longrightarrow>
     \<exists>b. cargar_ultimos_parametros ps i n = Inr b"
proof (induction n arbitrary: i)
  case 0
  show ?case by (rule exI[of _ False]) simp
next
  case (Suc n)
  show ?case
  proof (cases "intento_cargar (ps i)")
    case (Inr u)
    then show ?thesis by auto
  next
    case (Inl e)
    with Suc.prems[of i] have "is_Exception e" by (simp add: solo_Exception_def)
    with Inl Suc show ?thesis by simp
  qed
qed

lemma intento_click_solo:
  assumes "excepciones_de_modal w"
  shows "solo_Exception (intento_click (selectores_m w s))"
proof -
  from assms have
    "solo_Exception (clickable (selectores_m w s))"
    "solo_Exception (scroll_into_view (selectores_m w s))"
    "solo_Exception (click_directo (selectores_m w s))"
    "solo_Exception (click_script (selectores_m w s))"
    unfolding excepciones_de_modal_def by blast+
  then show ?thesis
    by (auto simp: solo_Exception_def intento_click_def split: sum.splits)
qed

lemma intento_cargar_solo:
  assumes "excepciones_de_modal w"
  shows "solo_Exception (intento_cargar (parametros_m w i))"
proof -
  from assms have
    "solo_Exception (boton_presente (parametros_m w i))"
    "solo_Exception (funcion_js (parametros_m w i))"
    "solo_Exception (click_js (parametros_m w i))"
    unfolding excepciones_de_modal_def by blast+
  then show ?thesis
    by (auto simp: solo_Exception_def intento_cargar_def split: sum.splits)
qed

lemma establecer_fechas_total:
  assumes "excepciones_de_modal w"
  shows "\<exists>b. establecer_fechas w = Inr b"
proof -
  from assms have "solo_Exception (fechas_m w)" unfolding excepciones_de_modal_def by blast
  then show ?thesis
    by (cases "fechas_m w") (auto simp: solo_Exception_def establecer_fechas_def)
qed

lemmas modal_eval =
  manejar_modal_parametros_def detectar_contexto_def establecer_fechas_def
  intento_cargar_def intento_click_def selectores_ejecutar_def
  modal_sin_contexto_def modal_sin_boton_def modal_busqueda_falla_def sin_boton_parametros_def
  selector_encontrado_def selector_ausente_def

text \<open>
  C5, as stated: the handler returns false when no new window opened and no frame can be
  resolved. On the page \<open>modal_sin_contexto\<close> there is neither, the handler stays in the
  current context, finds the button and returns true.
\<close>

theorem manejar_modal_parametros_counterexample:
  "handles_actuales_m modal_sin_contexto = handles_iniciales_m modal_sin_contexto
   \<and> find_iframes_m modal_sin_contexto = Inr 0
   \<and> detectar_contexto modal_sin_contexto = Inr ContextoActual
   \<and> manejar_modal_parametros modal_sin_contexto = Inr True"
  by (simp add: modal_eval numeral_3_eq_3)

lemma detectar_contexto_sin_ventana:
  assumes "current_window_handle_m w = Inr ho" "handles_iniciales_m w = Inr hi"
    "handles_actuales_m w = Inr ha" "set ha \<subseteq> set hi"
  shows "detectar_contexto w =
           (case find_iframes_m w of
              Inl e \<Rightarrow> if is_Exception e then Inr ContextoActual else Inl e
            | Inr iframes \<Rightarrow>
                if iframes \<noteq> 0 then
                  (case switch_to_frame_m w of
                     Inl e \<Rightarrow> if is_Exception e then Inr ContextoActual else Inl e
                   | Inr u \<Rightarrow> Inr UltimoIframe)
                else Inr ContextoActual)"
proof -
  from assms(4) have "filter (\<lambda>h. h \<notin> set hi) ha = []" by (auto simp: filter_empty_conv)
  with assms(1-3) show ?thesis by (simp add: detectar_contexto_def)
qed

lemma manejar_modal_parametros_tras_contexto:
  assumes d: "excepciones_de_modal w" and c: "detectar_contexto w = Inr ctx"
  shows "manejar_modal_parametros w
          = Inr (\<exists>s. s \<in> set selectores_ejecutar \<and> intento_click (selectores_m w s) = Inr ())"
proof -
  from cargar_ultimos_parametros_total[of "parametros_m w" 0 3] intento_cargar_solo[OF d]
  obtain b1 where p: "cargar_ultimos_parametros (parametros_m w) 0 3 = Inr b1" by blast
  from establecer_fechas_total[OF d] obtain b2 where fe: "establecer_fechas w = Inr b2" by blast
  from click_ejecutar_modal_total[of "selectores_m w" selectores_ejecutar] intento_click_solo[OF d]
  obtain r where k: "click_ejecutar_modal (selectores_m w) selectores_ejecutar = Inr r" by blast
  show ?thesis
  proof (cases r)
    case None
    from click_ejecutar_modal_None[OF k[unfolded None]]
    have "\<not> (\<exists>s. s \<in> set selectores_ejecutar \<and> intento_click (selectores_m w s) = Inr ())"
      by (auto simp: list_all_iff)
    with c p fe k None show ?thesis by (simp add: manejar_modal_parametros_def)
  next
    case (Some s)
    from click_ejecutar_modal_Some[OF k[unfolded Some]]
    have "\<exists>s. s \<in> set selectores_ejecutar \<and> intento_click (selectores_m w s) = Inr ()"
      by blast
    with c p fe k Some show ?thesis by (simp add: manejar_modal_parametros_def)
  qed
qed

lemma detectar_contexto_tolerante:
  assumes "current_window_handle_m w = Inr ho" "handles_iniciales_m w = Inr hi"
    "handles_actuales_m w = Inr ha" "set ha \<subseteq> set hi"
    "solo_Exception (find_iframes_m w)" "solo_Exception (switch_to_frame_m w)"
  shows "detectar_contexto w = Inr ContextoActual \<or> detectar_contexto w = Inr UltimoIframe"
  unfolding detectar_contexto_sin_ventana[OF assms(1-4)]
  using assms(5,6) by (auto simp: solo_Exception_def split: sum.splits)

text \<open>
  C5, amended: the only hard failure point is the submit control. The handler returns
  true only when a candidate selector gave an element that was clicked, and false only
  when every candidate selector failed. With no new window, the context detection never
  fails: with no iframe, with a search for iframes that raises, or with a switch into
  the last iframe that raises, the handler stays in the current context, and otherwise
  it is in the last iframe; in each case it goes on. After the context detection (with
  driver calls that raise instances of \<^verbatim>\<open>Exception\<close> only) it returns true or false,
  and true exactly when some candidate selector gave an element that was clicked.
\<close>

theorem manejar_modal_parametros_result:
  "(manejar_modal_parametros w = Inr True \<longrightarrow>
      (\<exists>s. s \<in> set selectores_ejecutar \<and> intento_click (selectores_m w s) = Inr ()))
   \<and> (manejar_modal_parametros w = Inr False \<longrightarrow>
      list_all (\<lambda>s. \<exists>e. intento_click (selectores_m w s) = Inl e) selectores_ejecutar)
   \<and> (current_window_handle_m w = Inr ho \<and> handles_iniciales_m w = Inr hi
        \<and> handles_actuales_m w = Inr ha \<and> set ha \<subseteq> set hi \<longrightarrow>
        (find_iframes_m w = Inr 0 \<longrightarrow> detectar_contexto w = Inr ContextoActual)
        \<and> ((\<exists>e. find_iframes_m w = Inl e \<and> is_Exception e) \<longrightarrow>
             detectar_contexto w = Inr ContextoActual)
        \<and> ((\<exists>n e. find_iframes_m w = Inr n \<and> n \<noteq> 0 \<and> switch_to_frame_m w = Inl e
                   \<and> is_Exception e) \<longrightarrow>
             detectar_contexto w = Inr ContextoActual)
        \<and> ((\<exists>n. find_iframes_m w = Inr n \<and> n \<noteq> 0 \<and> switch_to_frame_m w = Inr ()) \<longrightarrow>
             detectar_contexto w = Inr UltimoIframe)
        \<and> (excepciones_de_modal w \<and> solo_Exception (find_iframes_m w)
             \<and> solo_Exception (switch_to_frame_m w) \<longrightarrow>
             manejar_modal_parametros w
               = Inr (\<exists>s. s \<in> set selectores_ejecutar
                          \<and> intento_click (selectores_m w s) = Inr ())))
   \<and> (excepciones_de_modal w \<and> detectar_contexto w = Inr ctx \<longrightarrow>
        manejar_modal_parametros w
          = Inr (\<exists>s. s \<in> set selectores_ejecutar \<and> intento_click (selectores_m w s) = Inr ()))"
proof -
  have 1: "manejar_modal_parametros w = Inr True \<longrightarrow>
      (\<exists>s. s \<in> set selectores_ejecutar \<and> intento_click (selectores_m w s) = Inr ())"
  proof
    assume "manejar_modal_parametros w = Inr True"
    then obtain s where
      "click_ejecutar_modal (selectores_m w) selectores_ejecutar = Inr (Some s)"
      by (auto simp: manejar_modal_parametros_def split: sum.splits option.splits)
    from click_ejecutar_modal_Some[OF this]
    show "\<exists>s. s \<in> set selectores_ejecutar \<and> intento_click (selectores_m w s) = Inr ()"
      by blast
  qed
  have 2: "manejar_modal_parametros w = Inr False \<longrightarrow>
      list_all (\<lambda>s. \<exists>e. intento_click (selectores_m w s) = Inl e) selectores_ejecutar"
  proof
    assume "manejar_modal_parametros w = Inr False"
    then have "click_ejecutar_modal (selectores_m w) selectores_ejecutar = Inr None"
      by (auto simp: manejar_modal_parametros_def split: sum.splits option.splits)
    from click_ejecutar_modal_None[OF this]
    show "list_all (\<lambda>s. \<exists>e. intento_click (selectores_m w s) = Inl e) selectores_ejecutar" .
  qed
  have 3: "current_window_handle_m w = Inr ho \<and> handles_iniciales_m w = Inr hi
        \<and> handles_actuales_m w = Inr ha \<and> set ha \<subseteq> set hi \<longrightarrow>
        (find_iframes_m w = Inr 0 \<longrightarrow> detectar_contexto w = Inr ContextoActual)
        \<and> ((\<exists>e. find_iframes_m w = Inl e \<and> is_Exception e) \<longrightarrow>
             detectar_contexto w = Inr ContextoActual)
        \<and> ((\<exists>n e. find_iframes_m w = Inr n \<and> n \<noteq> 0 \<and> switch_to_frame_m w = Inl e
                   \<and> is_Exception e) \<longrightarrow>
             detectar_contexto w = Inr ContextoActual)
        \<and> ((\<exists>n. find_iframes_m w = Inr n \<and> n \<noteq> 0 \<and> switch_to_frame_m w = Inr ()) \<longrightarrow>
             detectar_contexto w = Inr UltimoIframe)
        \<and> (excepciones_de_modal w \<and> solo_Exception (find_iframes_m w)
             \<and> solo_Exception (switch_to_frame_m w) \<longrightarrow>
             manejar_modal_parametros w
               = Inr (\<exists>s. s \<in> set selectores_ejecutar
                          \<and> intento_click (selectores_m w s) = Inr ()))"
  proof
    assume h: "current_window_handle_m w = Inr ho \<and> handles_iniciales_m w = Inr hi
        \<and> handles_actuales_m w = Inr ha \<and> set ha \<subseteq> set hi"
    then have h': "current_window_handle_m w = Inr ho" "handles_iniciales_m w = Inr hi"
      "handles_actuales_m w = Inr ha" "set ha \<subseteq> set hi" by simp_all
    note dc = detectar_contexto_sin_ventana[OF h']
    have a: "find_iframes_m w = Inr 0 \<longrightarrow> detectar_contexto w = Inr ContextoActual"
      unfolding dc by simp
    have b: "(\<exists>e. find_iframes_m w = Inl e \<and> is_Exception e) \<longrightarrow>
             detectar_contexto w = Inr ContextoActual"
      unfolding dc by auto
    have c: "(\<exists>n e. find_iframes_m w = Inr n \<and> n \<noteq> 0 \<and> switch_to_frame_m w = Inl e
                   \<and> is_Exception e) \<longrightarrow> detectar_contexto w = Inr ContextoActual"
      unfolding dc by auto
    have d: "(\<exists>n. find_iframes_m w = Inr n \<and> n \<noteq> 0 \<and> switch_to_frame_m w = Inr ()) \<longrightarrow>
             detectar_contexto w = Inr UltimoIframe"
      unfolding dc by auto
    have e: "excepciones_de_modal w \<and> solo_Exception (find_iframes_m w)
             \<and> solo_Exception (switch_to_frame_m w) \<longrightarrow>
             manejar_modal_parametros w
               = Inr (\<exists>s. s \<in> set selectores_ejecutar
                          \<and> intento_click (selectores_m w s) = Inr ())"
    proof
      assume g: "excepciones_de_modal w \<and> solo_Exception (find_iframes_m w)
             \<and> solo_Exception (switch_to_frame_m w)"
      with detectar_contexto_tolerante[OF h'] obtain ctx' where
        "detectar_contexto w = Inr ctx'" by blast
      with g manejar_modal_parametros_tras_contexto[of w ctx']
      show "manejar_modal_parametros w
               = Inr (\<exists>s. s \<in> set selectores_ejecutar
                          \<and> intento_click (selectores_m w s) = Inr ())" by blast
    qed
    from a b c d e show "(find_iframes_m w = Inr 0 \<longrightarrow> detectar_contexto w = Inr ContextoActual)
        \<and> ((\<exists>e. find_iframes_m w = Inl e \<and> is_Exception e) \<longrightarrow>
             detectar_contexto w = Inr ContextoActual)
        \<and> ((\<exists>n e. find_iframes_m w = Inr n \<and> n \<noteq> 0 \<and> switch_to_frame_m w = Inl e
                   \<and> is_Exception e) \<longrightarrow>
             detectar_contexto w = Inr ContextoActual)
        \<and> ((\<exists>n. find_iframes_m w = Inr n \<and> n \<noteq> 0 \<and> switch_to_frame_m w = Inr ()) \<longrightarrow>
             detectar_contexto w = Inr UltimoIframe)
        \<and> (excepciones_de_modal w \<and> solo_Exception (find_iframes_m w)
             \<and> solo_Exception (switch_to_frame_m w) \<longrightarrow>
             manejar_modal_parametros w
               = Inr (\<exists>s. s \<in> set selectores_ejecutar
                          \<and> intento_click (selectores_m w s) = Inr ()))"
      by (intro conjI)
  qed
  have 4: "excepciones_de_modal w \<and> detectar_contexto w = Inr ctx \<longrightarrow>
        manejar_modal_parametros w
          = Inr (\<exists>s. s \<in> set selectores_ejecutar \<and> intento_click (selectores_m w s) = Inr ())"
    using manejar_modal_parametros_tras_contexto[of w ctx] by blast
  from 1 2 3 4 show ?thesis by (intro conjI)
qed

theorem manejar_modal_parametros_result_witness:
  "excepciones_de_modal modal_sin_contexto
   \<and> detectar_contexto modal_sin_contexto = Inr ContextoActual
   \<and> manejar_modal_parametros modal_sin_contexto = Inr True
   \<and> (\<exists>s. s \<in> set selectores_ejecutar
          \<and> intento_click (selectores_m modal_sin_contexto s) = Inr ())
   \<and> excepciones_de_modal modal_sin_boton
   \<and> detectar_contexto modal_sin_boton = Inr ContextoActual
   \<and> manejar_modal_parametros modal_sin_boton = Inr False
   \<and> list_all (\<lambda>s. \<exists>e. intento_click (selectores_m modal_sin_boton s) = Inl e)
        selectores_ejecutar
   \<and> find_iframes_m modal_busqueda_falla = Inl WebDriverException
   \<and> excepciones_de_modal modal_busqueda_falla
   \<and> detectar_contexto modal_busqueda_falla = Inr ContextoActual
   \<and> manejar_modal_parametros modal_busqueda_falla = Inr True"
proof -
  have a: "excepciones_de_modal modal_sin_contexto" "excepciones_de_modal modal_sin_boton"
    "excepciones_de_modal modal_busqueda_falla"
    by (simp_all add: excepciones_de_modal_def solo_Exception_def modal_eval)
  have b: "detectar_contexto modal_sin_contexto = Inr ContextoActual"
    "detectar_contexto modal_sin_boton = Inr ContextoActual"
    by (simp_all add: modal_eval)
  have c: "manejar_modal_parametros modal_sin_contexto = Inr True"
    "manejar_modal_parametros modal_sin_boton = Inr False"
    by (simp_all add: modal_eval numeral_3_eq_3)
  from manejar_modal_parametros_result[of modal_sin_contexto] c(1)
  have d: "\<exists>s. s \<in> set selectores_ejecutar
          \<and> intento_click (selectores_m modal_sin_contexto s) = Inr ()" by blast
  from manejar_modal_parametros_result[of modal_sin_boton] c(2)
  have e: "list_all (\<lambda>s. \<exists>e. intento_click (selectores_m modal_sin_boton s) = Inl e)
        selectores_ejecutar" by blast
  have f: "find_iframes_m modal_busqueda_falla = Inl WebDriverException"
    "current_window_handle_m modal_busqueda_falla = Inr ''main''
     \<and> handles_iniciales_m modal_busqueda_falla = Inr [''main'']
     \<and> handles_actuales_m modal_busqueda_falla = Inr [''main'']
     \<and> set [''main''] \<subseteq> set [''main'']"
    "solo_Exception (find_iframes_m modal_busqueda_falla)"
    "solo_Exception (switch_to_frame_m modal_busqueda_falla)"
    by (simp_all add: modal_eval solo_Exception_def)
  have f1: "\<exists>x. find_iframes_m modal_busqueda_falla = Inl x \<and> is_Exception x"
    using f(1) by simp
  from manejar_modal_parametros_result[of modal_busqueda_falla "''main''" "[''main'']"
      "[''main'']"] f(2) f1
  have g: "detectar_contexto modal_busqueda_falla = Inr ContextoActual" by blast
  have s0: "\<exists>s. s \<in> set selectores_ejecutar
          \<and> intento_click (selectores_m modal_busqueda_falla s) = Inr ()"
    by (rule exI[of _ 0]) (simp add: modal_eval)
  from manejar_modal_parametros_result[of modal_busqueda_falla "''main''" "[''main'']"
      "[''main'']"] f(2,3,4) a(3)
  have "manejar_modal_parametros modal_busqueda_falla
          = Inr (\<exists>s. s \<in> set selectores_ejecutar
                    \<and> intento_click (selectores_m modal_busqueda_falla s) = Inr ())"
    by blast
  with s0 have h: "manejar_modal_parametros modal_busqueda_falla = Inr True" by simp
  from a b c d e f(1) g h show ?thesis by blast
qed

section \<open>Fault isolation of the extraction driver\<close>

lemma recuperar_navegacion_regresa:
  "recuperar_navegacion ev = Inr () \<longleftrightarrow> regresa_a_lista ev"
  by (auto simp: recuperar_navegacion_def verificar_estado_def regresa_a_lista_def
           split: sum.splits if_splits)

lemma descargar_cada_reporte_continua:
  "(\<And>j. i \<le> j \<Longrightarrow> j < i + length rs \<Longrightarrow> continua (evs j)) \<Longrightarrow>
     descargar_cada_reporte evs i rs archivos
       = Inr (archivos @ descargados evs i (length rs))"
proof (induction rs arbitrary: i archivos)
  case Nil
  then show ?case by (simp add: descargados_def)
next
  case (Cons r rs)
  have ci: "continua (evs i)" using Cons.prems[of i] by simp
  have rest: "\<And>k ac. descargar_cada_reporte evs (Suc i) rs ac
                 = Inr (ac @ descargados evs (Suc i) (length rs))"
    using Cons.prems by (intro Cons.IH) simp_all
  have upt: "[i ..< i + length (r # rs)] = i # [Suc i ..< Suc i + length rs]"
    by (simp del: upt_Suc add: upt_conv_Cons)
  show ?case
  proof (cases "snd (descargar_reporte_retry (intentos (evs i)))")
    case (Inr archivo)
    have "descargados evs i (length (r # rs)) = archivo # descargados evs (Suc i) (length rs)"
      unfolding descargados_def upt using Inr by simp
    with Inr rest show ?thesis by simp
  next
    case (Inl e)
    with ci have e: "is_Exception e" "recuperar_navegacion (evs i) = Inr ()"
      by (simp_all add: continua_def recuperar_navegacion_regresa)
    have "descargados evs i (length (r # rs)) = descargados evs (Suc i) (length rs)"
      unfolding descargados_def upt using Inl by simp
    with Inl e rest show ?thesis by simp
  qed
qed

lemma descargar_cada_reporte_aborta:
  assumes "\<And>j. i \<le> j \<Longrightarrow> j < i + k \<Longrightarrow> continua (evs j)"
    and "k < length rs"
    and "snd (descargar_reporte_retry (intentos (evs (i + k)))) = Inl e"
    and "is_Exception e"
    and "recuperar_navegacion (evs (i + k)) = Inl e2"
  shows "descargar_cada_reporte evs i rs archivos = Inl e2"
  using assms
proof (induction k arbitrary: i rs archivos)
  case 0
  then obtain r rest where "rs = r # rest" by (cases rs) auto
  with 0 show ?case by simp
next
  case (Suc k)
  obtain r rest where rs: "rs = r # rest" using Suc.prems(2) by (cases rs) auto
  have ci: "continua (evs i)" using Suc.prems(1)[of i] by simp
  have rest: "descargar_cada_reporte evs (Suc i) rest ac = Inl e2" for ac
  proof (rule Suc.IH)
    fix j assume "Suc i \<le> j" "j < Suc i + k"
    then show "continua (evs j)" using Suc.prems(1)[of j] by simp
  next
    show "k < length rest" using Suc.prems(2) rs by simp
  next
    show "snd (descargar_reporte_retry (intentos (evs (Suc i + k)))) = Inl e"
      using Suc.prems(3) by simp
  next
    show "is_Exception e" by fact
  next
    show "recuperar_navegacion (evs (Suc i + k)) = Inl e2" using Suc.prems(5) by simp
  qed
  show ?case
  proof (cases "snd (descargar_reporte_retry (intentos (evs i)))")
    case (Inr archivo)
    with rest rs show ?thesis by simp
  next
    case (Inl e')
    with ci have "is_Exception e'" "recuperar_navegacion (evs i) = Inr ()"
      by (simp_all add: continua_def recuperar_navegacion_regresa)
    with Inl rest rs show ?thesis by simp
  qed
qed

lemma descargar_reporte_retry_agota:
  assumes "agota_reintentos fn"
  shows "descargar_reporte_retry fn = ([10], Inl RetryError)"
proof -
  let ?w = "wait_exponential 2 10 60 2"
  from assms obtain e1 e2 where
    f: "fn 1 = Inl e1" "reintentable e1" "fn 2 = Inl e2" "reintentable e2"
    by (auto simp: agota_reintentos_def split: sum.splits)
  from f(1,3) have f': "fn (Suc 0) = Inl e1" "fn (Suc (Suc 0)) = Inl e2"
    by (simp_all add: numeral_2_eq_2)
  have s2: "retrying 2 ?w reintentable fn (Suc 1) = ([], Inl RetryError)"
    by (subst retrying_step) (simp del: retrying.simps add: f f')
  have "retrying 2 ?w reintentable fn 1
          = (case retrying 2 ?w reintentable fn (Suc 1) of (sleeps, r) \<Rightarrow> (?w 1 # sleeps, r))"
    by (subst retrying_step) (simp del: retrying.simps add: f f')
  also have "\<dots> = ([?w 1], Inl RetryError)" unfolding s2 by simp
  also have "?w 1 = 10" by (simp add: wait_exponential_def)
  finally show ?thesis by (simp add: descargar_reporte_retry_def)
qed

lemma descargar_reporte_retry_primero:
  "fn 1 = Inr archivo \<Longrightarrow> descargar_reporte_retry fn = ([], Inr archivo)"
  unfolding descargar_reporte_retry_def by (subst retrying_step) (simp del: retrying.simps)

lemma agota_reintentos_ejemplos:
  "agota_reintentos (intentos agotado_sin_regreso)" "agota_reintentos (intentos agotado_en_lista)"
  by (simp_all add: agota_reintentos_def reintentable_def agotado_sin_regreso_def
        agotado_en_lista_def)

lemma ejecutar_extraccion_inicio:
  "iniciar_chrome_r w = Inr () \<Longrightarrow> login_neotel_r w = Inr () \<Longrightarrow>
   navegar_a_reportes_r w = Inr () \<Longrightarrow>
     ejecutar_extraccion w reportes = descargar_cada_reporte (eventos w) 0 reportes []"
  by (simp add: ejecutar_extraccion_def)

text \<open>
  C4, as stated: with the two configured reports, the first downloads its file at the
  first attempt and the second exhausts its retry budget, so one report succeeds and
  another exhausts its retries. The second failure leaves the browser where the report
  list cannot be reached again, and the exception of the second call of
  \<^verbatim>\<open>navegar_a_reportes\<close> leaves the loop: the run is aborted, and the path already
  downloaded is not returned. And when the run is not aborted (the first report exhausts
  its retries on the report list, the second downloads), the result has one entry for
  the two reports: the path of the second, and nothing for the failed one.
\<close>

theorem ejecutar_extraccion_counterexample:
  "snd (descargar_reporte_retry (intentos descargado))
       = Inr ''temp_neotel_downloads/estados.csv''
   \<and> agota_reintentos (intentos agotado_sin_regreso)
   \<and> snd (descargar_reporte_retry (intentos agotado_sin_regreso)) = Inl RetryError
   \<and> ejecutar_extraccion (sesion descargado agotado_sin_regreso) REPORTES = Inl RetryError
   \<and> agota_reintentos (intentos agotado_en_lista)
   \<and> ejecutar_extraccion (sesion agotado_en_lista descargado) REPORTES
       = Inr [''temp_neotel_downloads/estados.csv'']"
proof -
  have a: "snd (descargar_reporte_retry (intentos agotado_sin_regreso)) = Inl RetryError"
    by (simp add: descargar_reporte_retry_agota agota_reintentos_ejemplos)
  have a': "snd (descargar_reporte_retry (intentos agotado_en_lista)) = Inl RetryError"
    by (simp add: descargar_reporte_retry_agota agota_reintentos_ejemplos)
  have b: "snd (descargar_reporte_retry (intentos descargado))
       = Inr ''temp_neotel_downloads/estados.csv''"
    by (simp add: descargado_def descargar_reporte_retry_primero)
  have c: "recuperar_navegacion agotado_sin_regreso = Inl RetryError"
    by (simp add: recuperar_navegacion_def verificar_estado_def agotado_sin_regreso_def)
  have c': "recuperar_navegacion agotado_en_lista = Inr ()"
    by (simp add: recuperar_navegacion_def verificar_estado_def agotado_en_lista_def)
  have d: "ejecutar_extraccion (sesion descargado agotado_sin_regreso) REPORTES
             = Inl RetryError"
    by (simp add: ejecutar_extraccion_def sesion_def REPORTES_def a b c)
  have d': "ejecutar_extraccion (sesion agotado_en_lista descargado) REPORTES
       = Inr [''temp_neotel_downloads/estados.csv'']"
    by (simp add: ejecutar_extraccion_def sesion_def REPORTES_def a' b c')
  from a b d d' agota_reintentos_ejemplos show ?thesis by simp
qed

text \<open>
  C4, amended: a report whose two attempts raise exceptions of the retried types
  exhausts its retry budget: after one wait of 10 seconds \<^verbatim>\<open>RetryError\<close> is raised. The
  handler of the loop gets back to the report list exactly when the browser is still on
  a URL with \<^verbatim>\<open>ProcessAndReports\<close>, or the call of \<^verbatim>\<open>navegar_a_reportes\<close> in the \<^verbatim>\<open>try\<close>
  returns, or the reading of the URL or that call raises an instance of \<^verbatim>\<open>Exception\<close> and
  the call of \<^verbatim>\<open>navegar_a_reportes\<close> in the \<^verbatim>\<open>except\<close> returns. For every report list,
  after a start that succeeds: when each report is either downloaded or fails with an
  instance of \<^verbatim>\<open>Exception\<close> after which the handler gets back to the report list, the
  driver goes on to the next report after each failure and returns the paths of the
  downloaded reports in configured order, a failed report leaving no entry in the
  result; and when the reports before one go on in that way, and that one fails with an
  instance of \<^verbatim>\<open>Exception\<close> and the handler raises (in particular when the report
  exhausts its retry budget, the reading of the URL or the first call of
  \<^verbatim>\<open>navegar_a_reportes\<close> raises an instance of \<^verbatim>\<open>Exception\<close>, and the second call
  raises), the run is aborted with the exception of the handler.
\<close>

theorem ejecutar_extraccion_isolation:
  "(agota_reintentos fn \<longrightarrow> descargar_reporte_retry fn = ([10], Inl RetryError))
   \<and> (recuperar_navegacion ev = Inr () \<longleftrightarrow> regresa_a_lista ev)
   \<and> (iniciar_chrome_r w = Inr () \<and> login_neotel_r w = Inr ()
        \<and> navegar_a_reportes_r w = Inr ()
        \<and> (\<forall>j < length reportes. continua (eventos w j))
      \<longrightarrow> ejecutar_extraccion w reportes = Inr (descargados (eventos w) 0 (length reportes)))
   \<and> (iniciar_chrome_r w = Inr () \<and> login_neotel_r w = Inr ()
        \<and> navegar_a_reportes_r w = Inr ()
        \<and> k < length reportes \<and> (\<forall>j < k. continua (eventos w j))
        \<and> snd (descargar_reporte_retry (intentos (eventos w k))) = Inl e \<and> is_Exception e
        \<and> recuperar_navegacion (eventos w k) = Inl e2
      \<longrightarrow> ejecutar_extraccion w reportes = Inl e2)
   \<and> (iniciar_chrome_r w = Inr () \<and> login_neotel_r w = Inr ()
        \<and> navegar_a_reportes_r w = Inr ()
        \<and> k < length reportes \<and> (\<forall>j < k. continua (eventos w j))
        \<and> agota_reintentos (intentos (eventos w k))
        \<and> ((\<exists>url. current_url_r (eventos w k) = Inr url
                  \<and> \<not> contiene ''ProcessAndReports'' url
                  \<and> navegar_try_r (eventos w k) = Inl e1)
             \<or> current_url_r (eventos w k) = Inl e1)
        \<and> is_Exception e1 \<and> navegar_except_r (eventos w k) = Inl e2
      \<longrightarrow> ejecutar_extraccion w reportes = Inl e2)"
proof -
  have 1: "agota_reintentos fn \<longrightarrow> descargar_reporte_retry fn = ([10], Inl RetryError)"
    using descargar_reporte_retry_agota by blast
  have 2: "recuperar_navegacion ev = Inr () \<longleftrightarrow> regresa_a_lista ev"
    by (rule recuperar_navegacion_regresa)
  have 3: "iniciar_chrome_r w = Inr () \<and> login_neotel_r w = Inr ()
        \<and> navegar_a_reportes_r w = Inr ()
        \<and> (\<forall>j < length reportes. continua (eventos w j))
      \<longrightarrow> ejecutar_extraccion w reportes = Inr (descargados (eventos w) 0 (length reportes))"
  proof
    assume h: "iniciar_chrome_r w = Inr () \<and> login_neotel_r w = Inr ()
               \<and> navegar_a_reportes_r w = Inr ()
               \<and> (\<forall>j < length reportes. continua (eventos w j))"
    then have "descargar_cada_reporte (eventos w) 0 reportes []
                 = Inr ([] @ descargados (eventos w) 0 (length reportes))"
      by (intro descargar_cada_reporte_continua) simp
    with h show "ejecutar_extraccion w reportes
                   = Inr (descargados (eventos w) 0 (length reportes))"
      by (simp add: ejecutar_extraccion_inicio)
  qed
  have ab: "ejecutar_extraccion w reportes = Inl x"
    if s: "iniciar_chrome_r w = Inr ()" "login_neotel_r w = Inr ()"
          "navegar_a_reportes_r w = Inr ()"
      and k: "k < length reportes" "\<forall>j < k. continua (eventos w j)"
      and f: "snd (descargar_reporte_retry (intentos (eventos w k))) = Inl y" "is_Exception y"
      and r: "recuperar_navegacion (eventos w k) = Inl x" for x y
  proof -
    have "descargar_cada_reporte (eventos w) 0 reportes [] = Inl x"
    proof (rule descargar_cada_reporte_aborta[where k = k and e = y])
      fix j assume "0 \<le> j" "j < 0 + k"
      then show "continua (eventos w j)" using k(2) by simp
    next
      show "k < length reportes" by fact
    next
      show "snd (descargar_reporte_retry (intentos (eventos w (0 + k)))) = Inl y"
        using f(1) by simp
    next
      show "is_Exception y" by fact
    next
      show "recuperar_navegacion (eventos w (0 + k)) = Inl x" using r by simp
    qed
    with s show ?thesis by (simp add: ejecutar_extraccion_inicio)
  qed
  have 4: "iniciar_chrome_r w = Inr () \<and> login_neotel_r w = Inr ()
        \<and> navegar_a_reportes_r w = Inr ()
        \<and> k < length reportes \<and> (\<forall>j < k. continua (eventos w j))
        \<and> snd (descargar_reporte_retry (intentos (eventos w k))) = Inl e \<and> is_Exception e
        \<and> recuperar_navegacion (eventos w k) = Inl e2
      \<longrightarrow> ejecutar_extraccion w reportes = Inl e2"
    using ab[of e e2] by blast
  have 5: "iniciar_chrome_r w = Inr () \<and> login_neotel_r w = Inr ()
        \<and> navegar_a_reportes_r w = Inr ()
        \<and> k < length reportes \<and> (\<forall>j < k. continua (eventos w j))
        \<and> agota_reintentos (intentos (eventos w k))
        \<and> ((\<exists>url. current_url_r (eventos w k) = Inr url
                  \<and> \<not> contiene ''ProcessAndReports'' url
                  \<and> navegar_try_r (eventos w k) = Inl e1)
             \<or> current_url_r (eventos w k) = Inl e1)
        \<and> is_Exception e1 \<and> navegar_except_r (eventos w k) = Inl e2
      \<longrightarrow> ejecutar_extraccion w reportes = Inl e2"
  proof
    assume h: "iniciar_chrome_r w = Inr () \<and> login_neotel_r w = Inr ()
        \<and> navegar_a_reportes_r w = Inr ()
        \<and> k < length reportes \<and> (\<forall>j < k. continua (eventos w j))
        \<and> agota_reintentos (intentos (eventos w k))
        \<and> ((\<exists>url. current_url_r (eventos w k) = Inr url
                  \<and> \<not> contiene ''ProcessAndReports'' url
                  \<and> navegar_try_r (eventos w k) = Inl e1)
             \<or> current_url_r (eventos w k) = Inl e1)
        \<and> is_Exception e1 \<and> navegar_except_r (eventos w k) = Inl e2"
    then have "snd (descargar_reporte_retry (intentos (eventos w k))) = Inl RetryError"
      by (simp add: descargar_reporte_retry_agota)
    moreover have "is_Exception RetryError" by simp
    moreover from h have "recuperar_navegacion (eventos w k) = Inl e2"
      by (auto simp: recuperar_navegacion_def verificar_estado_def)
    ultimately show "ejecutar_extraccion w reportes = Inl e2"
      using h ab[of RetryError e2] by blast
  qed
  from 1 2 3 4 5 show ?thesis by (intro conjI)
qed

theorem ejecutar_extraccion_isolation_witness:
  "agota_reintentos (intentos agotado_en_lista)
   \<and> descargar_reporte_retry (intentos agotado_en_lista) = ([10], Inl RetryError)
   \<and> regresa_a_lista agotado_en_lista
   \<and> recuperar_navegacion agotado_en_lista = Inr ()
   \<and> continua agotado_en_lista \<and> continua descargado
   \<and> ejecutar_extraccion (sesion agotado_en_lista descargado) REPORTES
       = Inr [''temp_neotel_downloads/estados.csv'']
   \<and> agota_reintentos (intentos agotado_sin_regreso)
   \<and> \<not> contiene ''ProcessAndReports'' ''https://web.neoteluin.mx/callcenter/default.htm''
   \<and> recuperar_navegacion agotado_sin_regreso = Inl RetryError
   \<and> ejecutar_extraccion (sesion descargado agotado_sin_regreso) REPORTES = Inl RetryError
   \<and> ejecutar_extraccion (sesion agotado_sin_regreso descargado) REPORTES = Inl RetryError"
proof -
  let ?w = "sesion agotado_en_lista descargado"
  let ?v = "sesion descargado agotado_sin_regreso"
  let ?u = "sesion agotado_sin_regreso descargado"
  note ag = agota_reintentos_ejemplos
  from ejecutar_extraccion_isolation[where fn = "intentos agotado_en_lista"] ag(2)
  have a: "descargar_reporte_retry (intentos agotado_en_lista) = ([10], Inl RetryError)"
    by blast
  from ejecutar_extraccion_isolation[where fn = "intentos agotado_sin_regreso"] ag(1)
  have a2: "descargar_reporte_retry (intentos agotado_sin_regreso) = ([10], Inl RetryError)"
    by blast
  have b: "snd (descargar_reporte_retry (intentos descargado))
       = Inr ''temp_neotel_downloads/estados.csv''"
    by (simp add: descargado_def descargar_reporte_retry_primero)
  have g: "regresa_a_lista agotado_en_lista"
    by (simp add: regresa_a_lista_def agotado_en_lista_def)
  with ejecutar_extraccion_isolation[where ev = agotado_en_lista]
  have r: "recuperar_navegacion agotado_en_lista = Inr ()" by blast
  have c1: "continua agotado_en_lista" by (simp add: continua_def a g)
  have c2: "continua descargado" by (simp add: continua_def b)
  have all: "\<forall>j < length REPORTES. continua (eventos ?w j)"
    using c1 c2 by (simp add: sesion_def)
  have ok: "iniciar_chrome_r ?w = Inr () \<and> login_neotel_r ?w = Inr ()
            \<and> navegar_a_reportes_r ?w = Inr ()"
    "iniciar_chrome_r ?v = Inr () \<and> login_neotel_r ?v = Inr ()
            \<and> navegar_a_reportes_r ?v = Inr ()"
    "iniciar_chrome_r ?u = Inr () \<and> login_neotel_r ?u = Inr ()
            \<and> navegar_a_reportes_r ?u = Inr ()"
    by (simp_all add: sesion_def)
  have d: "descargados (eventos ?w) 0 (length REPORTES) = [''temp_neotel_downloads/estados.csv'']"
    by (simp add: descargados_def REPORTES_def sesion_def a b upt_rec[of 0] upt_rec[of 1])
  from ejecutar_extraccion_isolation[where w = ?w and reportes = REPORTES] ok(1) all
  have "ejecutar_extraccion ?w REPORTES = Inr (descargados (eventos ?w) 0 (length REPORTES))"
    by blast
  with d have e: "ejecutar_extraccion ?w REPORTES = Inr [''temp_neotel_downloads/estados.csv'']"
    by simp
  have nc: "\<not> contiene ''ProcessAndReports'' ''https://web.neoteluin.mx/callcenter/default.htm''"
    by simp
  have rn: "recuperar_navegacion agotado_sin_regreso = Inl RetryError"
    by (simp add: recuperar_navegacion_def verificar_estado_def agotado_sin_regreso_def)
  have v1: "(1::nat) < length REPORTES" "\<forall>j < (1::nat). continua (eventos ?v j)"
    "snd (descargar_reporte_retry (intentos (eventos ?v 1))) = Inl RetryError"
    "is_Exception RetryError" "recuperar_navegacion (eventos ?v 1) = Inl RetryError"
    using c2 a2 rn by (simp_all add: REPORTES_def sesion_def)
  from ejecutar_extraccion_isolation[where w = ?v and reportes = REPORTES and k = 1
      and e = RetryError and ?e2.0 = RetryError] ok(2) v1
  have f: "ejecutar_extraccion ?v REPORTES = Inl RetryError" by blast
  have u1: "(0::nat) < length REPORTES" "\<forall>j < (0::nat). continua (eventos ?u j)"
    "agota_reintentos (intentos (eventos ?u 0))"
    "\<exists>url. current_url_r (eventos ?u 0) = Inr url
                  \<and> \<not> contiene ''ProcessAndReports'' url
                  \<and> navegar_try_r (eventos ?u 0) = Inl RetryError"
    "navegar_except_r (eventos ?u 0) = Inl RetryError"
    using ag(1) by (simp_all add: REPORTES_def sesion_def agotado_sin_regreso_def)
  from ejecutar_extraccion_isolation[where w = ?u and reportes = REPORTES and k = 0
      and ?e1.0 = RetryError and ?e2.0 = RetryError] ok(3) u1 v1(4)
  have h: "ejecutar_extraccion ?u REPORTES = Inl RetryError" by blast
  from ag a g r c1 c2 e nc rn f h show ?thesis by blast
qed

section \<open>Conversion of time values\<close>

lemma leer_digitos_ceros:
  "leer_digitos (replicate k (CHR ''0'')) acc False = Some (acc * 10 ^ k)"
  by (induction k arbitrary: acc) (simp_all add: es_digito_def valor_digito_def)

lemma split_sin_separador: "sep \<notin> set xs \<Longrightarrow> split sep xs = [xs]"
  by (induction xs) auto

lemma strip_sin_espacios:
  assumes "s \<noteq> []" "\<not> es_espacio (hd s)" "\<not> es_espacio (last s)"
  shows "strip s = s"
proof -
  from assms have a: "dropWhile es_espacio s = s" by (cases s) simp_all
  from assms have "rev s \<noteq> []" "\<not> es_espacio (hd (rev s))" by (simp_all add: hd_rev)
  then have "dropWhile es_espacio (rev s) = rev s" by (cases "rev s") simp_all
  with a show ?thesis by (simp add: strip_def)
qed

lemma py_int_uno_ceros:
  assumes "k < int_max_str_digits"
  shows "py_int (CHR ''1'' # replicate k (CHR ''0'')) = Inr (10 ^ k)"
proof -
  let ?s = "CHR ''1'' # replicate k (CHR ''0'')"
  have "length (filter es_digito ?s) \<le> length ?s" by (rule length_filter_le)
  with assms have d: "\<not> int_max_str_digits < length (filter es_digito ?s)" by simp
  have l: "last ?s = CHR ''1'' \<or> last ?s = CHR ''0''" by (cases k) simp_all
  have "\<not> es_espacio (CHR ''1'')" "\<not> es_espacio (CHR ''0'')" by (simp_all add: es_espacio_def)
  with l have "\<not> es_espacio (last ?s)" by auto
  moreover have "\<not> es_espacio (hd ?s)" by (simp add: es_espacio_def)
  ultimately have "strip ?s = ?s" by (intro strip_sin_espacios) simp_all
  with d show ?thesis
    by (simp only: py_int_def if_False)
       (simp add: leer_natural_def es_digito_def valor_digito_def leer_digitos_ceros)
qed

lemma py_int_cero: "py_int ''0'' = Inr 0"
  by (simp add: py_int_def int_max_str_digits_def strip_def es_espacio_def leer_natural_def
      es_digito_def valor_digito_def)

lemmas tiempo_eval =
  convertir_tiempo_a_minutos_def cuerpo_try_def py_int_def int_max_str_digits_def
  leer_natural_def strip_def
  es_espacio_def es_digito_def valor_digito_def float_of_int_def truediv_def
  float_redondeado_def limite_float_def float_de_texto_def

lemma convertir_tiempo_a_minutos_ejemplos:
  "convertir_tiempo_a_minutos rnd fs PyNone = Inr (Finite 0)"
  "convertir_tiempo_a_minutos rnd fs (PyFloat NaN) = Inr (Finite 0)"
  "convertir_tiempo_a_minutos rnd fs (PyStr '' - '') = Inr (Finite 0)"
  "convertir_tiempo_a_minutos rnd fs (PyStr ''1:30'') = Inr (Finite (rnd 90))"
  "convertir_tiempo_a_minutos rnd fs (PyStr ''1:x'') = Inr (Finite 0)"
  "fs ''abc'' = None \<Longrightarrow> convertir_tiempo_a_minutos rnd fs (PyStr ''abc'') = Inr (Finite 0)"
  "fs ''2.5'' = Some (Finite (5 / 2)) \<Longrightarrow>
     convertir_tiempo_a_minutos rnd fs (PyStr ''2.5'') = Inr (Finite (5 / 2))"
  by (simp_all add: tiempo_eval)

text \<open>
  C10: on the string \<open>minutos_enormes\<close> (\<^verbatim>\<open>"0:1"\<close> followed by 309 zeros) both parts
  are integers; the conversion of \<^verbatim>\<open>h * 60 + m\<close> to a float raises
  \<^verbatim>\<open>OverflowError\<close>, which the handler for \<^verbatim>\<open>ValueError\<close> and \<^verbatim>\<open>TypeError\<close> does not
  catch: the function raises.
\<close>

theorem convertir_tiempo_a_minutos_overflow:
  "convertir_tiempo_a_minutos rnd float_of_str (PyStr minutos_enormes) = Inl OverflowError"
proof -
  let ?m = "CHR ''1'' # replicate 309 (CHR ''0'')"
  have s: "minutos_enormes = CHR ''0'' # CHR '':'' # ?m" by (simp add: minutos_enormes_def)
  have l: "last minutos_enormes = CHR ''0''" unfolding s by (simp add: numeral_eq_Suc)
  have "\<not> es_espacio (hd minutos_enormes)" "\<not> es_espacio (last minutos_enormes)"
    unfolding l unfolding s by (simp_all add: es_espacio_def)
  then have st: "strip minutos_enormes = minutos_enormes"
    by (intro strip_sin_espacios) (simp_all add: s)
  have nocolon: "CHR '':'' \<notin> set ?m" by simp
  have sp: "split (CHR '':'') minutos_enormes = [''0'', ?m]"
    unfolding s using split_sin_separador[OF nocolon] by simp
  have big: "limite_float \<le> \<bar>of_int (0 * 60 + 10 ^ 309)\<bar>"
    by (simp add: limite_float_def)
  have ov: "float_of_int rnd (0 * 60 + 10 ^ 309) = Inl OverflowError"
    unfolding float_of_int_def using big by simp
  have c: "cuerpo_try rnd float_of_str minutos_enormes = Inl OverflowError"
    unfolding cuerpo_try_def sp using ov
    by (simp add: s py_int_cero py_int_uno_ceros int_max_str_digits_def)
  have ne: "minutos_enormes \<notin> set [''-'', '''', ''nan'', ''None'']"
    by (simp add: s)
  show ?thesis
    unfolding convertir_tiempo_a_minutos_def using c ne by (simp add: st)
qed

end
